theory Spec2Isabelle
  imports Main "HOL-Library.Word" "HOL-Library.Signed_Division"
begin

unbundle bit_operations_syntax

section \<open>Machine types and byte buffers\<close>

text \<open>
  The stack is C. \<open>uint8_t\<close>, \<open>uint16_t\<close> and \<open>uint32_t\<close> are words of that width, so
  \<open>+\<close>, \<open>-\<close> and \<open>*\<close> wrap around as in C. An \<open>int32_t\<close> is read with \<open>sint\<close> and
  computed on as an \<open>int\<close>; C division and remainder on it truncate towards zero
  (\<open>sdiv\<close>, \<open>smod\<close>). A byte buffer is a list of bytes.
\<close>

type_synonym u8 = "8 word"
type_synonym u16 = "16 word"
type_synonym u32 = "32 word"

text \<open>
  Modelled from the spec: \<open>PF_FRAME_BUFFER_SIZE\<close> is defined in a header that is not
  part of the sources; the specification gives the hard cap of 1522 bytes.
\<close>

definition PF_FRAME_BUFFER_SIZE :: nat where
  "PF_FRAME_BUFFER_SIZE = 1522"

text \<open>
  Modelled from the spec: the EtherType constants of the OS abstraction layer
  (TPID \<open>0x8100\<close>, PROFINET \<open>0x8892\<close>, LLDP \<open>0x88CC\<close>).
\<close>

definition OS_ETHTYPE_VLAN :: u16 where "OS_ETHTYPE_VLAN = 0x8100"
definition OS_ETHTYPE_PROFINET :: u16 where "OS_ETHTYPE_PROFINET = 0x8892"
definition OS_ETHTYPE_LLDP :: u16 where "OS_ETHTYPE_LLDP = 0x88CC"

definition UINT32_MAX :: u32 where "UINT32_MAX = 0xFFFFFFFF"

text \<open>\<open>BIT(n)\<close> is \<open>1 << n\<close>.\<close>

definition BIT :: "nat \<Rightarrow> u8" where
  "BIT n = push_bit n 1"

text \<open>
  \<open>memcpy (&dst[off], src, n)\<close> with \<open>src\<close> already cut to its \<open>n\<close> bytes. The C call is
  defined only when \<open>off + n\<close> does not exceed the size of \<open>dst\<close>; every theorem below
  that depends on a copy states that bound.
\<close>

definition memcpy_at :: "u8 list \<Rightarrow> nat \<Rightarrow> u8 list \<Rightarrow> u8 list" where
  "memcpy_at dst off src = take off dst @ src @ drop (off + length src) dst"

text \<open>\<open>memset (dst, 0, n)\<close>.\<close>

definition memset0 :: "u8 list \<Rightarrow> nat \<Rightarrow> u8 list" where
  "memset0 dst n = replicate n 0 @ drop n dst"

text \<open>
  \<open>u16 = htons (v); memcpy (p, &u16, 2)\<close> stores \<open>v\<close> in network order, most significant
  byte first, whatever the byte order of the host is.
\<close>

definition be16 :: "u16 \<Rightarrow> u8 list" where
  "be16 v = [ucast (drop_bit 8 v), ucast v]"

text \<open>\<open>pnet_ethaddr_t\<close>: a MAC address, six bytes.\<close>

datatype pnet_ethaddr = Ethaddr u8 u8 u8 u8 u8 u8

fun addr :: "pnet_ethaddr \<Rightarrow> u8 list" where
  "addr (Ethaddr a b c d e f) = [a, b, c, d, e, f]"

section \<open>PPM: data model\<close>

datatype pf_ppm_state_values = PF_PPM_STATE_W_START | PF_PPM_STATE_RUN

text \<open>
  The numeric values of the error classes and codes live in the public API header, which
  is not part of the sources. They are kept as enumerations; any value this module does
  not write is carried as a raw byte.
\<close>

datatype pnet_error_code_1 = PNET_ERROR_CODE_1_PPM | PNET_ERROR_CODE_1_OTHER u8

datatype pnet_error_code_2 =
  PNET_ERROR_CODE_2_PPM_INVALID_STATE | PNET_ERROR_CODE_2_PPM_INVALID | PNET_ERROR_CODE_2_OTHER u8

text \<open>
  Modelled from the spec: the bit numbers of the data status byte (STATE bit 0,
  REDUNDANCY bit 1, DATA_VALID bit 2, PROVIDER_STATE bit 4, PROBLEM_INDICATOR bit 5).
\<close>

definition PNET_DATA_STATUS_BIT_STATE :: nat where "PNET_DATA_STATUS_BIT_STATE = 0"
definition PNET_DATA_STATUS_BIT_REDUNDANCY :: nat where "PNET_DATA_STATUS_BIT_REDUNDANCY = 1"
definition PNET_DATA_STATUS_BIT_DATA_VALID :: nat where "PNET_DATA_STATUS_BIT_DATA_VALID = 2"
definition PNET_DATA_STATUS_BIT_PROVIDER_STATE :: nat where "PNET_DATA_STATUS_BIT_PROVIDER_STATE = 4"
definition PNET_DATA_STATUS_BIT_STATION_PROBLEM_INDICATOR :: nat where
  "PNET_DATA_STATUS_BIT_STATION_PROBLEM_INDICATOR = 5"

text \<open>\<open>os_buf_t\<close>: the allocated bytes and the length in use.\<close>

record os_buf =
  payload :: "u8 list"
  len :: u16

text \<open>\<open>os_timer_t\<close>, the fields this module touches.\<close>

record os_timer =
  exit :: bool
  timerid :: u32
  us :: u32

record pf_iocr_tag_header =
  iocr_user_priority :: u8
  vlan_id :: u16

record pf_iocr_param =
  frame_id :: u16
  c_sdu_length :: u16
  send_clock_factor :: u16
  reduction_ratio :: u16
  iocr_tag_header :: pf_iocr_tag_header

text \<open>
  \<open>pf_ppm_t\<close>. The two fields the C struct also calls \<open>send_clock_factor\<close> and
  \<open>reduction_ratio\<close> carry the prefix \<open>ppm_\<close> here, since a record field is a global
  name. \<open>rt_timer\<close> is \<open>rt_args->rt_timer\<close>; the other members of \<open>rt_args\<close> are
  back pointers to the stack instance, the callback and the IOCR. A pointer is an
  \<open>option\<close>, \<open>None\<close> being \<open>NULL\<close>.
\<close>

record pf_ppm =
  state :: pf_ppm_state_values
  first_transmit :: bool
  trx_cnt :: u32
  p_send_buffer :: "os_buf option"
  sa :: pnet_ethaddr
  da :: pnet_ethaddr
  buffer_pos :: u16
  cycle :: u16
  transfer_status :: u8
  data_status :: u8
  cycle_counter_offset :: u16
  data_status_offset :: u16
  transfer_status_offset :: u16
  buffer_length :: u16
  buffer_data :: "u8 list"
  control_interval :: u32
  compensated_control_interval :: u32
  ppm_send_clock_factor :: u16
  ppm_reduction_ratio :: u16
  ci_running :: bool
  ci_timer :: u32
  rt_timer :: "os_timer option"

record pf_iocr =
  param :: pf_iocr_param
  ppm :: pf_ppm
  in_length :: u16

text \<open>
  \<open>pf_ar_t\<close>, the members used here. \<open>cm_responder_mac_add\<close> is
  \<open>ar_result.cm_responder_mac_add\<close> and \<open>cm_initiator_mac_add\<close> is
  \<open>ar_param.cm_initiator_mac_add\<close>. \<open>iocrs\<close> is a fixed array in C, indexed by \<open>crep\<close>;
  an index outside it is undefined there, and the theorems assume \<open>crep\<close> inside.
\<close>

record pf_ar =
  in_use :: bool
  iocrs :: "pf_iocr list"
  err_cls :: pnet_error_code_1
  err_code :: pnet_error_code_2
  cm_responder_mac_add :: pnet_ethaddr
  cm_initiator_mac_add :: pnet_ethaddr

datatype os_mutex = Mutex

text \<open>
  Calls into the collaborators (buffer pool, Ethernet driver, timers, scheduler,
  connection manager) are recorded, in order, in \<open>os_calls\<close>. What a collaborator
  returns is an argument of the function that calls it.
\<close>

datatype os_event =
  OS_MUTEX_CREATE
  | OS_MUTEX_DESTROY
  | OS_BUF_ALLOC
  | OS_BUF_FREE "os_buf option"
  | OS_ETH_SEND "os_buf option"
  | OS_TIMER_CREATE u32
  | OS_TIMER_START
  | OS_TIMER_DESTROY
  | PF_SCHEDULER_ADD u32
  | PF_SCHEDULER_REMOVE u32
  | PF_CMSU_PPM_ERROR_IND pnet_error_code_1 pnet_error_code_2

text \<open>\<open>pnet_t\<close>, the process-wide members the PPM uses.\<close>

record pnet =
  ppm_instance_cnt :: u32
  ppm_buf_lock :: "os_mutex option"
  scheduler_tick_interval :: u32
  ifOutErrors :: u32
  ifOutOctects :: u32
  os_calls :: "os_event list"

text \<open>
  What stops a call instead of returning: a failed \<open>CC_ASSERT\<close>, a division by zero,
  a \<open>NULL\<close> pointer that is dereferenced.
\<close>

datatype ppm_abort = CC_ASSERT_FAILED | DIVISION_BY_ZERO | NULL_DEREFERENCE

section \<open>PPM: operations\<close>

definition pf_ppm_init :: "pnet \<Rightarrow> pnet" where
  "pf_ppm_init net = net\<lparr>ppm_instance_cnt := 0\<rparr>"

definition pf_ppm_state_ind :: "pnet \<Rightarrow> pf_ar \<Rightarrow> bool \<Rightarrow> int \<times> pnet \<times> pf_ar" where
  "pf_ppm_state_ind net p_ar error =
     (if error then
        (0,
         net\<lparr>os_calls := os_calls net @
           [PF_CMSU_PPM_ERROR_IND PNET_ERROR_CODE_1_PPM PNET_ERROR_CODE_2_PPM_INVALID]\<rparr>,
         p_ar\<lparr>err_cls := PNET_ERROR_CODE_1_PPM, err_code := PNET_ERROR_CODE_2_PPM_INVALID\<rparr>)
      else (0, net, p_ar))"

definition pf_ppm_set_state :: "pf_ppm \<Rightarrow> pf_ppm_state_values \<Rightarrow> pf_ppm" where
  "pf_ppm_set_state p_ppm st = p_ppm\<lparr>state := st\<rparr>"

text \<open>
  \<open>pf_ppm_init_buf\<close>: sets the length, clears that many bytes, then writes destination
  MAC, source MAC, TPID, VLAN tag, EtherType and frame id from position 0.
\<close>

definition pf_ppm_init_buf ::
  "pf_ppm \<Rightarrow> os_buf \<Rightarrow> u16 \<Rightarrow> pf_iocr_tag_header \<Rightarrow> os_buf" where
  "pf_ppm_init_buf p_ppm p_buf fid p_header =
     (let l = buffer_length p_ppm;
          p0 = memset0 (payload p_buf) (unat l);
          p1 = memcpy_at p0 0 (addr (da p_ppm));
          p2 = memcpy_at p1 6 (addr (sa p_ppm));
          p3 = memcpy_at p2 12 (be16 OS_ETHTYPE_VLAN);
          tag = (vlan_id p_header AND 0x0FFF)
                  OR push_bit 13 (ucast (iocr_user_priority p_header) AND 0x0007);
          p4 = memcpy_at p3 14 (be16 tag);
          p5 = memcpy_at p4 16 (be16 OS_ETHTYPE_PROFINET);
          p6 = memcpy_at p5 18 (be16 fid)
      in p_buf\<lparr>payload := p6, len := l\<rparr>)"

text \<open>
  The first lines of \<open>pf_ppm_finish_buffer\<close>, up to the value assigned to
  \<open>p_ppm->cycle\<close>. \<open>now\<close> is what \<open>os_get_current_time_us ()\<close> returns, a
  \<open>uint32_t\<close>. \<open>cycle_tmp\<close> is an \<open>int32_t\<close>: the product \<open>now * 4\<close> wraps at 32 bits and
  is then read as a signed value. \<open>_ratio\<close> and \<open>_remainder\<close> are \<open>uint16_t\<close>. The
  remainder, the comparison and the subtraction promote the 16-bit operands to \<open>int\<close>;
  the assignment to the 16-bit \<open>cycle\<close> truncates.
\<close>

definition pf_ppm_finish_buffer_cycle :: "u32 \<Rightarrow> u16 \<Rightarrow> u16 \<Rightarrow> ppm_abort + u16" where
  "pf_ppm_finish_buffer_cycle now scf rr =
     (let cycle_tmp0 = sint (now * 4);
          cycle_tmp1 = cycle_tmp0 sdiv 125;
          ratio = scf * rr
      in if ratio = 0 then Inl DIVISION_BY_ZERO
         else
           (let remainder = (word_of_int (cycle_tmp1 smod uint ratio) :: u16);
                cycle_tmp2 = (if cycle_tmp1 < uint ratio then uint ratio
                              else cycle_tmp1 - uint remainder)
            in Inr (word_of_int cycle_tmp2)))"

text \<open>
  \<open>pf_ppm_finish_buffer\<close>: the cycle counter, then the copy of the staged data to
  \<open>buffer_pos\<close>, then cycle counter, data status and transfer status at their offsets.
\<close>

definition pf_ppm_finish_buffer :: "u32 \<Rightarrow> pf_ppm \<Rightarrow> u16 \<Rightarrow> ppm_abort + pf_ppm" where
  "pf_ppm_finish_buffer now p_ppm data_length =
     (case p_send_buffer p_ppm of
        None \<Rightarrow> Inl NULL_DEREFERENCE
      | Some buf \<Rightarrow>
         (case pf_ppm_finish_buffer_cycle now (ppm_send_clock_factor p_ppm)
                 (ppm_reduction_ratio p_ppm) of
            Inl e \<Rightarrow> Inl e
          | Inr c \<Rightarrow>
             (let p_ppm1 = p_ppm\<lparr>cycle := c\<rparr>;
                  q0 = memcpy_at (payload buf) (unat (buffer_pos p_ppm1))
                         (take (unat data_length) (buffer_data p_ppm1));
                  q1 = memcpy_at q0 (unat (cycle_counter_offset p_ppm1)) (be16 (cycle p_ppm1));
                  q2 = memcpy_at q1 (unat (data_status_offset p_ppm1)) [data_status p_ppm1];
                  q3 = memcpy_at q2 (unat (transfer_status_offset p_ppm1))
                         [transfer_status p_ppm1]
              in Inr (p_ppm1\<lparr>p_send_buffer := Some (buf\<lparr>payload := q3\<rparr>)\<rparr>))))"

text \<open>
  \<open>pf_ppm_calculate_compensated_delay\<close>. \<open>rtos\<close> is the compile-time switch
  \<open>PNET_OS_RTOS_SUPPORTED\<close>. All arithmetic is \<open>uint32_t\<close>. The division is reached
  only in the first branch; the documentation requires \<open>stack_cycle_time > 0\<close>.
\<close>

definition pf_ppm_calculate_compensated_delay :: "bool \<Rightarrow> u32 \<Rightarrow> u32 \<Rightarrow> ppm_abort + u32" where
  "pf_ppm_calculate_compensated_delay rtos wanted_delay stack_cycle_time =
     (if wanted_delay > stack_cycle_time + stack_cycle_time div 2 \<and> stack_cycle_time = 0
      then Inl DIVISION_BY_ZERO
      else
        (let number_of_stack_tics =
               (if wanted_delay > stack_cycle_time + stack_cycle_time div 2
                then (wanted_delay + stack_cycle_time div 2) div stack_cycle_time
                else 1)
         in if \<not> number_of_stack_tics \<ge> 1 then Inl CC_ASSERT_FAILED
            else if \<not> number_of_stack_tics < 0x80000000 then Inl CC_ASSERT_FAILED
            else if rtos then Inr (number_of_stack_tics * stack_cycle_time)
            else Inr (number_of_stack_tics * stack_cycle_time - stack_cycle_time div 2)))"

text \<open>Storing the PPM record back into \<open>p_ar->iocrs[crep].ppm\<close>.\<close>

definition set_ppm :: "pf_ar \<Rightarrow> nat \<Rightarrow> pf_ppm \<Rightarrow> pf_ar" where
  "set_ppm p_ar crep p = p_ar\<lparr>iocrs := (iocrs p_ar)[crep := (iocrs p_ar ! crep)\<lparr>ppm := p\<rparr>]\<rparr>"

definition log_call :: "pnet \<Rightarrow> os_event list \<Rightarrow> pnet" where
  "log_call net es = net\<lparr>os_calls := os_calls net @ es\<rparr>"

text \<open>
  \<open>pf_ppm_send\<close>, the timer callback. \<open>now\<close> is the value of
  \<open>os_get_current_time_us ()\<close>, \<open>eth_send_ret\<close> the return value of \<open>os_eth_send\<close>,
  \<open>sched_ret\<close> the outcome of \<open>pf_scheduler_add\<close> on the cooperative path (\<open>Some id\<close>:
  it returned 0 and stored \<open>id\<close> in \<open>ci_timer\<close>; \<open>None\<close>: it failed). The IOCR is
  addressed by its index in the AR.
\<close>

definition pf_ppm_send ::
  "bool \<Rightarrow> u32 \<Rightarrow> int \<Rightarrow> u32 option \<Rightarrow> pnet \<Rightarrow> pf_ar \<Rightarrow> nat \<Rightarrow> ppm_abort + (pnet \<times> pf_ar)" where
  "pf_ppm_send rtos now eth_send_ret sched_ret net p_ar crep =
     (let p_arg = iocrs p_ar ! crep;
          pp0 = (ppm p_arg)\<lparr>ci_timer := UINT32_MAX\<rparr>
      in if ci_running pp0 then
           (case pf_ppm_finish_buffer now pp0 (in_length p_arg) of
              Inl e \<Rightarrow> Inl e
            | Inr pp1 \<Rightarrow>
               (let net1 = log_call net [OS_ETH_SEND (p_send_buffer pp1)]
                in if eth_send_ret \<le> 0 then
                     Inr (net1\<lparr>ifOutErrors := ifOutErrors net1 + 1\<rparr>, set_ppm p_ar crep pp1)
                   else
                     (let net2 = net1\<lparr>ifOutOctects := ifOutOctects net1 + 1\<rparr>;
                          (ret, pp2, net3) =
                            (if rtos then
                               (case rt_timer pp1 of
                                  Some t \<Rightarrow> (0 :: int, pp1, log_call net2 [OS_TIMER_START])
                                | None \<Rightarrow> (- 1, pp1, net2))
                             else
                               (case sched_ret of
                                  Some i \<Rightarrow>
                                    (0, pp1\<lparr>ci_timer := i\<rparr>,
                                     log_call net2 [PF_SCHEDULER_ADD (compensated_control_interval pp1)])
                                | None \<Rightarrow>
                                    (- 1, pp1,
                                     log_call net2 [PF_SCHEDULER_ADD (compensated_control_interval pp1)])))
                      in if ret = 0 then
                           (let pp3 = pp2\<lparr>trx_cnt := trx_cnt pp2 + 1\<rparr>;
                                pp4 = (if first_transmit pp3 = False
                                       then pp3\<lparr>first_transmit := True\<rparr> else pp3)
                            in Inr (net3, set_ppm p_ar crep pp4))
                         else
                           (let pp3 = pp2\<lparr>ci_timer := UINT32_MAX\<rparr>;
                                (r, net4, ar4) = pf_ppm_state_ind net3 (set_ppm p_ar crep pp3) True
                            in Inr (net4, ar4)))))
         else Inr (net, set_ppm p_ar crep pp0))"

text \<open>
  \<open>pf_ppm_activate_req\<close>. \<open>alloc_ret\<close> is what \<open>os_buf_alloc\<close> returns, \<open>timer_ret\<close>
  what \<open>os_timer_create\<close> returns (preemptive path), \<open>sched_ret\<close> the outcome of
  \<open>pf_scheduler_add\<close> (cooperative path). The counter is incremented and the mutex
  created before the state is looked at.
\<close>

definition pf_ppm_activate_req ::
  "bool \<Rightarrow> os_buf option \<Rightarrow> os_timer option \<Rightarrow> u32 option \<Rightarrow> pnet \<Rightarrow> pf_ar \<Rightarrow> nat
     \<Rightarrow> ppm_abort + (int \<times> pnet \<times> pf_ar)" where
  "pf_ppm_activate_req rtos alloc_ret timer_ret sched_ret net p_ar crep =
     (let p_iocr = iocrs p_ar ! crep;
          cnt = ppm_instance_cnt net;
          net1 = net\<lparr>ppm_instance_cnt := cnt + 1\<rparr>;
          net2 = (if cnt = 0
                  then log_call (net1\<lparr>ppm_buf_lock := Some Mutex\<rparr>) [OS_MUTEX_CREATE]
                  else net1);
          p_ppm = ppm p_iocr
      in if state p_ppm = PF_PPM_STATE_RUN then
           Inr (- 1, net2,
                p_ar\<lparr>err_cls := PNET_ERROR_CODE_1_PPM,
                      err_code := PNET_ERROR_CODE_2_PPM_INVALID_STATE\<rparr>)
         else
           (let p1 = p_ppm\<lparr>first_transmit := False,
                            sa := cm_responder_mac_add p_ar,
                            da := cm_initiator_mac_add p_ar,
                            buffer_pos := 2 * 6 + 4 + 2 + 2,
                            cycle := 0,
                            transfer_status := 0\<rparr>;
                sdu = c_sdu_length (param p_iocr);
                p2 = p1\<lparr>cycle_counter_offset := buffer_pos p1 + sdu,
                        data_status_offset := buffer_pos p1 + sdu + 2,
                        transfer_status_offset := buffer_pos p1 + sdu + 2 + 1,
                        buffer_length := buffer_pos p1 + sdu + 2 + 1 + 1,
                        data_status := BIT PNET_DATA_STATUS_BIT_STATE
                                       + BIT PNET_DATA_STATUS_BIT_DATA_VALID
                                       + BIT PNET_DATA_STATUS_BIT_STATION_PROBLEM_INDICATOR\<rparr>;
                net3 = log_call net2 [OS_BUF_ALLOC]
            in case alloc_ret of
                 None \<Rightarrow> Inl NULL_DEREFERENCE
               | Some fresh \<Rightarrow>
                  (let p3 = p2\<lparr>p_send_buffer :=
                                  Some (pf_ppm_init_buf p2 fresh (frame_id (param p_iocr))
                                          (iocr_tag_header (param p_iocr))),
                                control_interval :=
                                  (ucast (send_clock_factor (param p_iocr))
                                   * ucast (reduction_ratio (param p_iocr)) * 1000) div 32,
                                ppm_send_clock_factor := send_clock_factor (param p_iocr),
                                ppm_reduction_ratio := reduction_ratio (param p_iocr)\<rparr>
                   in case pf_ppm_calculate_compensated_delay rtos (control_interval p3)
                             (scheduler_tick_interval net3) of
                        Inl e \<Rightarrow> Inl e
                      | Inr d \<Rightarrow>
                         (let p4 = pf_ppm_set_state (p3\<lparr>compensated_control_interval := d\<rparr>)
                                     PF_PPM_STATE_RUN;
                              p5 = p4\<lparr>ci_running := True\<rparr>;
                              (ret, p6, net4) =
                                (if rtos then
                                   (case timer_ret of
                                      Some t \<Rightarrow>
                                        (0 :: int, p5\<lparr>rt_timer := Some t\<rparr>,
                                         log_call net3 [OS_TIMER_CREATE d, OS_TIMER_START])
                                    | None \<Rightarrow>
                                        (- 1, p5\<lparr>rt_timer := None\<rparr>,
                                         log_call net3 [OS_TIMER_CREATE d]))
                                 else
                                   (case sched_ret of
                                      Some i \<Rightarrow>
                                        (0, p5\<lparr>ci_timer := i\<rparr>, log_call net3 [PF_SCHEDULER_ADD d])
                                    | None \<Rightarrow> (- 1, p5, log_call net3 [PF_SCHEDULER_ADD d])))
                          in if ret \<noteq> 0 then
                               (let p7 = p6\<lparr>ci_timer := UINT32_MAX\<rparr>;
                                    (r, net5, ar5) =
                                      pf_ppm_state_ind net4 (set_ppm p_ar crep p7) True
                                in Inr (ret, net5, ar5))
                             else Inr (ret, net4, set_ppm p_ar crep p6)))))"

text \<open>
  \<open>pf_ppm_close_req\<close>. No branch looks at the state. \<open>os_buf_free\<close> leaves the pointer
  \<open>p_send_buffer\<close> as it was. On the preemptive path the timer object is still written
  after \<open>os_timer_destroy\<close>.
\<close>

definition pf_ppm_close_req :: "bool \<Rightarrow> pnet \<Rightarrow> pf_ar \<Rightarrow> nat \<Rightarrow> int \<times> pnet \<times> pf_ar" where
  "pf_ppm_close_req rtos net p_ar crep =
     (let p0 = (ppm (iocrs p_ar ! crep))\<lparr>ci_running := False\<rparr>;
          (p1, net1) =
            (if rtos then
               (case rt_timer p0 of
                  Some t \<Rightarrow>
                    (p0\<lparr>rt_timer := Some (t\<lparr>exit := True, timerid := 0\<rparr>), ci_timer := UINT32_MAX\<rparr>,
                     log_call net [OS_TIMER_DESTROY])
                | None \<Rightarrow> (p0, net))
             else
               (if ci_timer p0 \<noteq> UINT32_MAX
                then (p0\<lparr>ci_timer := UINT32_MAX\<rparr>, log_call net [PF_SCHEDULER_REMOVE (ci_timer p0)])
                else (p0, net)));
          net2 = log_call net1 [OS_BUF_FREE (p_send_buffer p1)];
          p2 = pf_ppm_set_state p1 PF_PPM_STATE_W_START;
          cnt = ppm_instance_cnt net2;
          net3 = net2\<lparr>ppm_instance_cnt := cnt - 1\<rparr>
      in if cnt = 1 then
           (0, log_call (net3\<lparr>ppm_buf_lock := None\<rparr>) [OS_MUTEX_DESTROY],
            set_ppm p_ar crep (p2\<lparr>data_status := 0\<rparr>))
         else (0, net3, set_ppm p_ar crep p2))"

subsection \<open>Data status\<close>

definition pf_ppm_set_data_status_state :: "pf_ar \<Rightarrow> nat \<Rightarrow> bool \<Rightarrow> int \<times> pf_ar" where
  "pf_ppm_set_data_status_state p_ar crep primary =
     (let p_ppm = ppm (iocrs p_ar ! crep)
      in if primary = True then
           (0, set_ppm p_ar crep
                 (p_ppm\<lparr>data_status := data_status p_ppm OR BIT PNET_DATA_STATUS_BIT_STATE\<rparr>))
         else
           (0, set_ppm p_ar crep
                 (p_ppm\<lparr>data_status := data_status p_ppm AND NOT (BIT PNET_DATA_STATUS_BIT_STATE)\<rparr>)))"

definition pf_ppm_set_data_status_redundancy :: "pf_ar \<Rightarrow> nat \<Rightarrow> bool \<Rightarrow> int \<times> pf_ar" where
  "pf_ppm_set_data_status_redundancy p_ar crep redundant =
     (let p_ppm = ppm (iocrs p_ar ! crep)
      in if redundant = True then
           (0, set_ppm p_ar crep
                 (p_ppm\<lparr>data_status := data_status p_ppm OR BIT PNET_DATA_STATUS_BIT_REDUNDANCY\<rparr>))
         else
           (0, set_ppm p_ar crep
                 (p_ppm\<lparr>data_status :=
                    data_status p_ppm AND NOT (BIT PNET_DATA_STATUS_BIT_REDUNDANCY)\<rparr>)))"

definition pf_ppm_set_data_status_provider :: "pf_ar \<Rightarrow> nat \<Rightarrow> bool \<Rightarrow> int \<times> pf_ar" where
  "pf_ppm_set_data_status_provider p_ar crep run =
     (let p_ppm = ppm (iocrs p_ar ! crep)
      in if run = True then
           (0, set_ppm p_ar crep
                 (p_ppm\<lparr>data_status := data_status p_ppm OR BIT PNET_DATA_STATUS_BIT_PROVIDER_STATE\<rparr>))
         else
           (0, set_ppm p_ar crep
                 (p_ppm\<lparr>data_status :=
                    data_status p_ppm AND NOT (BIT PNET_DATA_STATUS_BIT_PROVIDER_STATE)\<rparr>)))"

section \<open>Scenario values and specification-side definitions\<close>

text \<open>
  The activation of the end-to-end scenario: one IOCR with send clock factor 32,
  reduction ratio 1, 40 bytes of payload, frame id \<open>0x8001\<close>, VLAN id 0 and priority 6,
  in an AR between initiator \<open>AA:BB:CC:DD:EE:01\<close> and responder \<open>11:22:33:44:55:66\<close>.
  The PPM record is as \<open>memset\<close> leaves it.
\<close>

definition scenario_ppm :: pf_ppm where
  "scenario_ppm = \<lparr>state = PF_PPM_STATE_W_START, first_transmit = False, trx_cnt = 0,
     p_send_buffer = None, sa = Ethaddr 0 0 0 0 0 0, da = Ethaddr 0 0 0 0 0 0,
     buffer_pos = 0, cycle = 0, transfer_status = 0, data_status = 0,
     cycle_counter_offset = 0, data_status_offset = 0, transfer_status_offset = 0,
     buffer_length = 0, buffer_data = replicate 1522 0, control_interval = 0,
     compensated_control_interval = 0, ppm_send_clock_factor = 0, ppm_reduction_ratio = 0,
     ci_running = False, ci_timer = 0, rt_timer = None\<rparr>"

definition scenario_iocr :: pf_iocr where
  "scenario_iocr = \<lparr>param = \<lparr>frame_id = 0x8001, c_sdu_length = 40, send_clock_factor = 32,
       reduction_ratio = 1, iocr_tag_header = \<lparr>iocr_user_priority = 6, vlan_id = 0\<rparr>\<rparr>,
     ppm = scenario_ppm, in_length = 40\<rparr>"

definition scenario_ar :: pf_ar where
  "scenario_ar = \<lparr>in_use = True, iocrs = [scenario_iocr],
     err_cls = PNET_ERROR_CODE_1_OTHER 0, err_code = PNET_ERROR_CODE_2_OTHER 0,
     cm_responder_mac_add = Ethaddr 0x11 0x22 0x33 0x44 0x55 0x66,
     cm_initiator_mac_add = Ethaddr 0xAA 0xBB 0xCC 0xDD 0xEE 0x01\<rparr>"

definition scenario_net :: pnet where
  "scenario_net = \<lparr>ppm_instance_cnt = 0, ppm_buf_lock = None, scheduler_tick_interval = 1000,
     ifOutErrors = 0, ifOutOctects = 0, os_calls = []\<rparr>"

text \<open>
  The number of stack ticks as the specification words it, on unbounded naturals:
  1 if the wanted delay is at most one and a half stack cycles, else
  \<open>(wanted + stack / 2) / stack\<close>.
\<close>

definition spec_number_of_stack_tics :: "nat \<Rightarrow> nat \<Rightarrow> nat" where
  "spec_number_of_stack_tics W S = (if S + S div 2 < W then (W + S div 2) div S else 1)"

text \<open>
  The frame condition of a data status setter for bit \<open>n\<close>: the call returns 0, and the
  AR it leaves differs from the one it got at most in the \<open>data_status\<close> byte of the
  addressed IOCR, where every bit other than \<open>n\<close> is as before.
\<close>

definition only_data_status_bit :: "nat \<Rightarrow> pf_ar \<Rightarrow> nat \<Rightarrow> int \<times> pf_ar \<Rightarrow> bool" where
  "only_data_status_bit n p_ar crep r \<longleftrightarrow>
     fst r = 0 \<and>
     (\<exists>d. snd r = p_ar\<lparr>iocrs := (iocrs p_ar)[crep :=
                      (iocrs p_ar ! crep)\<lparr>ppm := (ppm (iocrs p_ar ! crep))\<lparr>data_status := d\<rparr>\<rparr>]\<rparr>
          \<and> (\<forall>k. k \<noteq> n \<longrightarrow> bit d k = bit (data_status (ppm (iocrs p_ar ! crep))) k))"

text \<open>
  The frames handed to the Ethernet driver, in order: of each buffer passed to
  \<open>os_eth_send\<close>, the first \<open>len\<close> bytes of its payload.
\<close>

definition sent_frames :: "os_event list \<Rightarrow> u8 list list" where
  "sent_frames es =
     concat (map (\<lambda>e. case e of OS_ETH_SEND (Some b) \<Rightarrow> [take (unat (len b)) (payload b)]
                               | _ \<Rightarrow> []) es)"

text \<open>
  Activation followed by one timer tick at time \<open>now\<close>: the frames the two calls hand
  to the driver.
\<close>

definition ppm_first_frame ::
  "bool \<Rightarrow> os_buf \<Rightarrow> os_timer option \<Rightarrow> u32 option \<Rightarrow> u32 \<Rightarrow> int \<Rightarrow> u32 option
     \<Rightarrow> pnet \<Rightarrow> pf_ar \<Rightarrow> nat \<Rightarrow> ppm_abort + u8 list list" where
  "ppm_first_frame rtos fresh timer_ret sched_ret now eth_send_ret sched_ret2 net p_ar crep =
     (case pf_ppm_activate_req rtos (Some fresh) timer_ret sched_ret net p_ar crep of
        Inl e \<Rightarrow> Inl e
      | Inr (r, net1, ar1) \<Rightarrow>
         (case pf_ppm_send rtos now eth_send_ret sched_ret2 net1 ar1 crep of
            Inl e \<Rightarrow> Inl e
          | Inr (net2, ar2) \<Rightarrow> Inr (sent_frames (drop (length (os_calls net)) (os_calls net2)))))"

definition bytes_at :: "nat \<Rightarrow> u8 list list \<Rightarrow> u8 list" where
  "bytes_at i fs = map (\<lambda>f. f ! i) fs"

text \<open>The parameters of the scenario, for any AR and IOCR index.\<close>

definition scenario_params :: "pf_ar \<Rightarrow> nat \<Rightarrow> bool" where
  "scenario_params p_ar crep \<longleftrightarrow>
     crep < length (iocrs p_ar)
   \<and> send_clock_factor (param (iocrs p_ar ! crep)) = 32
   \<and> reduction_ratio (param (iocrs p_ar ! crep)) = 1
   \<and> c_sdu_length (param (iocrs p_ar ! crep)) = 40
   \<and> frame_id (param (iocrs p_ar ! crep)) = 0x8001
   \<and> vlan_id (iocr_tag_header (param (iocrs p_ar ! crep))) = 0
   \<and> iocr_user_priority (iocr_tag_header (param (iocrs p_ar ! crep))) = 6
   \<and> cm_initiator_mac_add p_ar = Ethaddr 0xAA 0xBB 0xCC 0xDD 0xEE 0x01
   \<and> cm_responder_mac_add p_ar = Ethaddr 0x11 0x22 0x33 0x44 0x55 0x66
   \<and> state (ppm (iocrs p_ar ! crep)) = PF_PPM_STATE_W_START
   \<and> unat (in_length (iocrs p_ar ! crep)) \<le> 40"

definition scenario_buf :: os_buf where
  "scenario_buf = \<lparr>payload = replicate 1522 0, len = 0\<rparr>"

text \<open>
  The cycle counter as the specification words it, on unbounded naturals: with
  \<open>raw = t * 4 / 125\<close>, the value \<open>ratio\<close> if \<open>raw < ratio\<close>, else \<open>raw - raw mod ratio\<close>.
\<close>

definition spec_cycle_counter :: "nat \<Rightarrow> nat \<Rightarrow> nat" where
  "spec_cycle_counter t ratio =
     (let raw = t * 4 div 125 in if raw < ratio then ratio else raw - raw mod ratio)"

text \<open>
  Sequences of calls into the PPM: initialisation, activation of the IOCR at an index
  (with what the allocator, the timer and the scheduler return), and close. Return
  codes are dropped; a call that aborts ends the sequence.
\<close>

datatype ppm_call =
  PPM_INIT
  | PPM_ACTIVATE nat "os_buf option" "os_timer option" "u32 option"
  | PPM_CLOSE nat

fun ppm_calls :: "bool \<Rightarrow> ppm_call list \<Rightarrow> pnet \<Rightarrow> pf_ar \<Rightarrow> ppm_abort + (pnet \<times> pf_ar)" where
  "ppm_calls rtos [] net p_ar = Inr (net, p_ar)"
| "ppm_calls rtos (PPM_INIT # cs) net p_ar = ppm_calls rtos cs (pf_ppm_init net) p_ar"
| "ppm_calls rtos (PPM_ACTIVATE crep alloc_ret timer_ret sched_ret # cs) net p_ar =
     (case pf_ppm_activate_req rtos alloc_ret timer_ret sched_ret net p_ar crep of
        Inl e \<Rightarrow> Inl e
      | Inr (r, net', ar') \<Rightarrow> ppm_calls rtos cs net' ar')"
| "ppm_calls rtos (PPM_CLOSE crep # cs) net p_ar =
     (case pf_ppm_close_req rtos net p_ar crep of (r, net', ar') \<Rightarrow> ppm_calls rtos cs net' ar')"

text \<open>
  What the lock invariant talks about: the instance counter, the lock, and the state of
  every PPM instance.
\<close>

definition ppm_observe ::
  "ppm_abort + (pnet \<times> pf_ar) \<Rightarrow> ppm_abort + (u32 \<times> os_mutex option \<times> pf_ppm_state_values list)" where
  "ppm_observe r =
     (case r of Inl e \<Rightarrow> Inl e
      | Inr (net, p_ar) \<Rightarrow>
          Inr (ppm_instance_cnt net, ppm_buf_lock net, map (\<lambda>io. state (ppm io)) (iocrs p_ar)))"


section \<open>LLDP: frame codec\<close>

text \<open>
  Modelled from the spec: the block writer (\<open>pf_put_byte\<close>, \<open>pf_put_uint16\<close>) lives in
  a file that is not part of the sources. The specification says that a write advances
  the position and that a write at or beyond the cap fails: nothing is written and the
  position stays.
\<close>

definition pf_put_byte :: "u8 \<Rightarrow> nat \<Rightarrow> u8 list \<times> nat \<Rightarrow> u8 list \<times> nat" where
  "pf_put_byte val res_len bp =
     (case bp of (p_bytes, p_pos) \<Rightarrow>
        if p_pos \<ge> res_len then (p_bytes, p_pos) else (p_bytes[p_pos := val], p_pos + 1))"

definition pf_put_uint16 :: "bool \<Rightarrow> u16 \<Rightarrow> nat \<Rightarrow> u8 list \<times> nat \<Rightarrow> u8 list \<times> nat" where
  "pf_put_uint16 is_big_endian val res_len bp =
     (if is_big_endian
      then pf_put_byte (ucast val) res_len (pf_put_byte (ucast (drop_bit 8 val)) res_len bp)
      else pf_put_byte (ucast (drop_bit 8 val)) res_len (pf_put_byte (ucast val) res_len bp))"

text \<open>
  Modelled from the spec: the TLV type numbers (end 0, chassis id 1, port id 2, TTL 3,
  organisation-specific 127) and the header layout, a big-endian 16-bit word with the
  type in the high 7 bits and the length in the low 9 bits.
\<close>

definition LLDP_TYPE_END :: u8 where "LLDP_TYPE_END = 0"
definition LLDP_TYPE_CHASSIS_ID :: u8 where "LLDP_TYPE_CHASSIS_ID = 1"
definition LLDP_TYPE_PORT_ID :: u8 where "LLDP_TYPE_PORT_ID = 2"
definition LLDP_TYPE_TTL :: u8 where "LLDP_TYPE_TTL = 3"
definition LLDP_TYPE_ORG_SPEC :: u8 where "LLDP_TYPE_ORG_SPEC = 127"

definition LLDP_TYPE_MASK :: u16 where "LLDP_TYPE_MASK = 0xFE00"
definition LLDP_TYPE_SHIFT :: nat where "LLDP_TYPE_SHIFT = 9"
definition LLDP_LENGTH_MASK :: u16 where "LLDP_LENGTH_MASK = 0x1FF"

text \<open>
  \<open>pf_lldp_tlv_header\<close>. Both parameters are \<open>uint8_t\<close>; the sum is computed in \<open>int\<close>
  and passed as \<open>uint16_t\<close>.
\<close>

definition pf_lldp_tlv_header :: "u8 list \<times> nat \<Rightarrow> u8 \<Rightarrow> u8 \<Rightarrow> u8 list \<times> nat" where
  "pf_lldp_tlv_header bp typ ln =
     pf_put_uint16 True (push_bit 9 (ucast typ) + (ucast ln AND 0x1ff)) PF_FRAME_BUFFER_SIZE bp"

text \<open>The LLDP configuration, the member the TTL TLV uses.\<close>

record pnet_lldp_cfg =
  ttl :: u16

record pnet_cfg =
  lldp_cfg :: pnet_lldp_cfg

definition lldp_add_ttl_tlv :: "pnet_cfg \<Rightarrow> u8 list \<times> nat \<Rightarrow> u8 list \<times> nat" where
  "lldp_add_ttl_tlv p_cfg bp =
     pf_put_uint16 True (ttl (lldp_cfg p_cfg)) PF_FRAME_BUFFER_SIZE
       (pf_lldp_tlv_header bp LLDP_TYPE_TTL 2)"

section \<open>LLDP: peer record, alarms and receive path\<close>

text \<open>
  A character array is kept as the bytes in front of the terminator that the code
  writes; the C string in it ends at the first zero byte.
\<close>

definition cstr :: "u8 list \<Rightarrow> u8 list" where
  "cstr xs = takeWhile (\<lambda>b. b \<noteq> 0) xs"

definition DOT :: u8 where "DOT = 0x2E"

text \<open>
  The peer record \<open>fspm_cfg.lldp_peer_cfg\<close>, the members behind the claims. The measured
  delays, the port status, the peer MAC address and the MAC/PHY configuration, which
  only organisation-specific TLVs write, are left out.
\<close>

record lldp_peer_cfg =
  PeerChassisID :: "u8 list"
  PeerChassisIDLen :: nat
  PeerPortID :: "u8 list"
  PeerPortIDLen :: nat
  TTL :: u16
  peerTimer :: "os_timer option"

text \<open>
  The diagnosis item. The numeric values of the identifiers are in headers that are not
  part of the sources; they are kept as enumerations. \<open>ch_properties\<close> holds the
  specifier that \<open>PNET_DIAG_CH_PROP_SPEC_SET\<close> puts into the channel properties. Every
  member listed is assigned after the \<open>memset\<close> and before the item is used.
\<close>

datatype pnet_diag_ch_prop_spec =
  PNET_DIAG_CH_PROP_SPEC_APPEARS
  | PNET_DIAG_CH_PROP_SPEC_DISAPPEARS

datatype pf_usi_values = PF_USI_CHANNEL_DIAGNOSIS | PF_USI_EXTENDED_CHANNEL_DIAGNOSIS

datatype pf_wrt_error_values = PF_WRT_ERROR_REMOTE_MISMATCH | PF_WRT_ERROR_PORTID_MISMATCH

record pf_alarm_spec =
  channel_diagnosis :: bool
  manufacturer_diagnosis :: bool
  submodule_diagnosis :: bool
  ar_diagnosis :: bool

record pf_diag_item =
  alarm_spec :: pf_alarm_spec
  ch_properties :: pnet_diag_ch_prop_spec
  usi :: pf_usi_values
  ch_nbr :: pf_usi_values
  ch_error_type :: pf_wrt_error_values
  ext_ch_error_type :: pf_wrt_error_values
  ext_ch_add_value :: u32
  qual_ch_qualifier :: u32

text \<open>
  Calls into the diagnosis store, the alarm sender and the timers, in order. An AR is
  named by its index in \<open>cmrpc_ar\<close>. The API, slot, subslot and module identifiers
  passed along are constants and not recorded.
\<close>

datatype lldp_event =
  PF_DIAG_UPDATE nat pf_diag_item
  | PF_DIAG_ADD nat pf_diag_item
  | PF_ALARM_SEND_PORT_CHANGE_NOTIFICATION nat pf_diag_item
  | LLDP_TIMER_CREATE u32
  | LLDP_TIMER_START
  | LLDP_TIMER_STOP

text \<open>
  \<open>pnet_t\<close>, the members the LLDP engine uses. The two alias names are
  \<open>cmina_perm_dcp_ase.alias_name\<close> and \<open>cmina_temp_dcp_ase.alias_name\<close>, as C strings.
\<close>

record pnet_lldp =
  cmrpc_ar :: "pf_ar list"
  perm_alias_name :: "u8 list"
  temp_alias_name :: "u8 list"
  peer_cfg :: lldp_peer_cfg
  lldp_calls :: "lldp_event list"

text \<open>
  The sizes of four character arrays are declared in headers that are not part of the
  sources: \<open>PeerChassisID\<close>, \<open>PeerPortID\<close>, the \<open>value\<close> member of \<open>LLDP_FRAME\<close> and
  \<open>alias_name\<close>. They are parameters. The local \<open>_Alias\<close> has 250 bytes.
\<close>

record lldp_sizes =
  sizeof_PeerChassisID :: nat
  sizeof_PeerPortID :: nat
  sizeof_frame_value :: nat
  sizeof_alias_name :: nat

definition sizeof_Alias :: nat where "sizeof_Alias = 250"

text \<open>
  What stops the receive path: a read beyond the frame buffer, a write beyond one of
  the character arrays.
\<close>

datatype lldp_abort = READ_OUT_OF_BOUNDS | WRITE_OUT_OF_BOUNDS

text \<open>
  The body of the loop of \<open>pf_lldp_send_remote_mismatch_alarm\<close> for the in-use AR at
  index \<open>ix\<close>: the diagnosis item, the calls into the diagnosis store, the port
  change notification. \<open>diag_update_ret\<close> is what \<open>pf_diag_update\<close> returns for that
  AR. In the branch without channel diagnosis there is one update and no
  \<open>pf_diag_add\<close>.
\<close>

definition remote_mismatch_ar ::
  "(nat \<Rightarrow> int) \<Rightarrow> u8 list \<Rightarrow> u8 list \<Rightarrow> nat \<Rightarrow> lldp_event list" where
  "remote_mismatch_ar diag_update_ret perm temp ix =
     (let diag_item =
            \<lparr>alarm_spec =
               (if perm \<noteq> temp
                then \<lparr>channel_diagnosis = True, manufacturer_diagnosis = False,
                      submodule_diagnosis = True, ar_diagnosis = True\<rparr>
                else \<lparr>channel_diagnosis = False, manufacturer_diagnosis = False,
                      submodule_diagnosis = False, ar_diagnosis = False\<rparr>),
             ch_properties =
               (if perm \<noteq> temp then PNET_DIAG_CH_PROP_SPEC_APPEARS
                else PNET_DIAG_CH_PROP_SPEC_DISAPPEARS),
             usi = PF_USI_EXTENDED_CHANNEL_DIAGNOSIS,
             ch_nbr = PF_USI_CHANNEL_DIAGNOSIS,
             ch_error_type = PF_WRT_ERROR_REMOTE_MISMATCH,
             ext_ch_error_type = PF_WRT_ERROR_PORTID_MISMATCH,
             ext_ch_add_value = 0,
             qual_ch_qualifier = 0\<rparr>;
          diag_calls =
            (if channel_diagnosis (alarm_spec diag_item) then
               (if diag_update_ret ix \<noteq> 0
                then [PF_DIAG_UPDATE ix diag_item, PF_DIAG_ADD ix diag_item]
                else [PF_DIAG_UPDATE ix diag_item])
             else [PF_DIAG_UPDATE ix diag_item])
      in diag_calls @ [PF_ALARM_SEND_PORT_CHANGE_NOTIFICATION ix diag_item])"

text \<open>
  The loop over \<open>net->cmrpc_ar\<close>, from index \<open>ix\<close> on: the calls made and the flag
  \<open>alarm_sent\<close>.
\<close>

fun remote_mismatch_loop ::
  "(nat \<Rightarrow> int) \<Rightarrow> u8 list \<Rightarrow> u8 list \<Rightarrow> nat \<Rightarrow> pf_ar list \<Rightarrow> bool
     \<Rightarrow> lldp_event list \<times> bool" where
  "remote_mismatch_loop diag_update_ret perm temp ix [] alarm_sent = ([], alarm_sent)"
| "remote_mismatch_loop diag_update_ret perm temp ix (a # as) alarm_sent =
     (if in_use a = True then
        (case remote_mismatch_loop diag_update_ret perm temp (ix + 1) as True of
           (es, sent) \<Rightarrow> (remote_mismatch_ar diag_update_ret perm temp ix @ es, sent))
      else remote_mismatch_loop diag_update_ret perm temp (ix + 1) as alarm_sent)"

text \<open>
  \<open>pf_lldp_send_remote_mismatch_alarm\<close>. When no AR is in use the temporary alias is
  copied over the permanent one; the copy writes \<open>strlen (temp) + 1\<close> bytes.
\<close>

definition pf_lldp_send_remote_mismatch_alarm ::
  "lldp_sizes \<Rightarrow> (nat \<Rightarrow> int) \<Rightarrow> pnet_lldp \<Rightarrow> lldp_abort + pnet_lldp" where
  "pf_lldp_send_remote_mismatch_alarm sz diag_update_ret net =
     (case remote_mismatch_loop diag_update_ret (perm_alias_name net) (temp_alias_name net) 0
             (cmrpc_ar net) False of
        (es, alarm_sent) \<Rightarrow>
          (let net1 = net\<lparr>lldp_calls := lldp_calls net @ es\<rparr>
           in if False = alarm_sent then
                (if length (temp_alias_name net1) < sizeof_alias_name sz
                 then Inr (net1\<lparr>perm_alias_name := temp_alias_name net1\<rparr>)
                 else Inl WRITE_OUT_OF_BOUNDS)
              else Inr net1))"

text \<open>
  Modelled from the spec: \<open>TICK_INTERVAL_SEC\<close>, one second in the unit of the timer
  period (microseconds), is defined outside the sources.
\<close>

definition TICK_INTERVAL_SEC :: u32 where "TICK_INTERVAL_SEC = 1000000"

text \<open>
  Modelled from the spec: \<open>htons (GET_UINT16 (pData))\<close> reads the big-endian 16-bit word
  at \<open>pData\<close>. The type is the masked word shifted down, the length the low 9 bits. A
  read beyond the buffer stops the model.
\<close>

definition lldp_get_header :: "u8 list \<Rightarrow> nat \<Rightarrow> lldp_abort + (u8 \<times> nat)" where
  "lldp_get_header p pos =
     (if pos + 2 \<le> length p then
        (let tvData = (push_bit 8 (ucast (p ! pos)) OR ucast (p ! (pos + 1)) :: u16)
         in Inr (ucast (drop_bit LLDP_TYPE_SHIFT (tvData AND LLDP_TYPE_MASK)),
                 unat (tvData AND LLDP_LENGTH_MASK)))
      else Inl READ_OUT_OF_BOUNDS)"

text \<open>
  The chassis id branch: length \<open>_frame.len - 1\<close>, copy from \<open>pData + 1\<close>, terminator.
  With a TLV length of 0 the subtraction wraps in C and the copy runs far beyond the
  array; the model stops there.
\<close>

definition pf_lldp_recv_chassis_id ::
  "lldp_sizes \<Rightarrow> pnet_lldp \<Rightarrow> u8 list \<Rightarrow> nat \<Rightarrow> nat \<Rightarrow> lldp_abort + pnet_lldp" where
  "pf_lldp_recv_chassis_id sz net p pData ln =
     (if ln = 0 then Inl WRITE_OUT_OF_BOUNDS
      else if \<not> pData + 1 + (ln - 1) \<le> length p then Inl READ_OUT_OF_BOUNDS
      else if \<not> ln - 1 < sizeof_PeerChassisID sz then Inl WRITE_OUT_OF_BOUNDS
      else Inr (net\<lparr>peer_cfg := (peer_cfg net)\<lparr>PeerChassisIDLen := ln - 1,
                                                PeerChassisID := take (ln - 1) (drop (pData + 1) p)\<rparr>\<rparr>))"

text \<open>
  The port id branch. \<open>alias\<close> is the C string in the local \<open>_Alias\<close>, which is zeroed
  once, when \<open>pf_lldp_recv\<close> is entered. With a dot in the port id, \<open>strncpy\<close> and the
  terminator at \<open>PeerPortIDLen\<close> replace the string; without, three \<open>strncat\<close> append
  to what is there, and the terminator at
  \<open>PeerPortIDLen + PeerChassisIDLen + 1\<close> cuts the result. If the alias differs from
  the temporary alias name it is stored there and the remote mismatch alarm path runs.
\<close>

definition pf_lldp_recv_port_id ::
  "lldp_sizes \<Rightarrow> (nat \<Rightarrow> int) \<Rightarrow> pnet_lldp \<Rightarrow> u8 list \<Rightarrow> u8 list \<Rightarrow> nat \<Rightarrow> nat
     \<Rightarrow> lldp_abort + (pnet_lldp \<times> u8 list)" where
  "pf_lldp_recv_port_id sz diag_update_ret net alias p pData ln =
     (if ln = 0 then Inl WRITE_OUT_OF_BOUNDS
      else if \<not> pData + 1 + (ln - 1) \<le> length p then Inl READ_OUT_OF_BOUNDS
      else if \<not> ln - 1 < sizeof_frame_value sz then Inl WRITE_OUT_OF_BOUNDS
      else if \<not> ln - 1 < sizeof_PeerPortID sz then Inl WRITE_OUT_OF_BOUNDS
      else
        (let peer1 = (peer_cfg net)\<lparr>PeerPortIDLen := ln - 1,
                                     PeerPortID := take (ln - 1) (drop (pData + 1) p)\<rparr>;
             net1 = net\<lparr>peer_cfg := peer1\<rparr>;
             port = cstr (PeerPortID peer1);
             chassis = cstr (PeerChassisID peer1)
         in if DOT \<in> set port then
              (if \<not> PeerPortIDLen peer1 < sizeof_Alias then Inl WRITE_OUT_OF_BOUNDS
               else
                 (let alias1 = take (PeerPortIDLen peer1) port
                  in if alias1 \<noteq> temp_alias_name net1 then
                       (if \<not> length alias1 < sizeof_alias_name sz then Inl WRITE_OUT_OF_BOUNDS
                        else
                          (case pf_lldp_send_remote_mismatch_alarm sz diag_update_ret
                                  (net1\<lparr>temp_alias_name := alias1\<rparr>) of
                             Inl e \<Rightarrow> Inl e
                           | Inr net2 \<Rightarrow> Inr (net2, alias1)))
                     else Inr (net1, alias1)))
            else
              (let a1 = alias @ take (PeerPortIDLen peer1) port;
                   a2 = a1 @ take 1 [DOT];
                   a3 = a2 @ take (PeerChassisIDLen peer1) chassis
               in if \<not> length a3 < sizeof_Alias then Inl WRITE_OUT_OF_BOUNDS
                  else if \<not> PeerPortIDLen peer1 + PeerChassisIDLen peer1 + 1 < sizeof_Alias
                  then Inl WRITE_OUT_OF_BOUNDS
                  else
                    (let alias1 = take (PeerPortIDLen peer1 + PeerChassisIDLen peer1 + 1) a3
                     in if alias1 \<noteq> temp_alias_name net1 then
                          (if \<not> length alias1 < sizeof_alias_name sz then Inl WRITE_OUT_OF_BOUNDS
                           else
                             (case pf_lldp_send_remote_mismatch_alarm sz diag_update_ret
                                     (net1\<lparr>temp_alias_name := alias1\<rparr>) of
                                Inl e \<Rightarrow> Inl e
                              | Inr net2 \<Rightarrow> Inr (net2, alias1)))
                        else Inr (net1, alias1)))))"

text \<open>
  The TTL branch: the byte at \<open>pData[1]\<close> is stored as the TTL. Without a peer timer one
  is created (\<open>timer_create_ret\<close> is what \<open>os_timer_create\<close> returns) and started if
  the creation succeeded; otherwise the timer is stopped, its period set, and started.
\<close>

definition pf_lldp_recv_ttl ::
  "os_timer option \<Rightarrow> pnet_lldp \<Rightarrow> u8 list \<Rightarrow> nat \<Rightarrow> lldp_abort + pnet_lldp" where
  "pf_lldp_recv_ttl timer_create_ret net p pData =
     (if \<not> pData + 1 < length p then Inl READ_OUT_OF_BOUNDS
      else
        (let peer1 = (peer_cfg net)\<lparr>TTL := ucast (p ! (pData + 1))\<rparr>
         in case peerTimer peer1 of
              None \<Rightarrow>
                (case timer_create_ret of
                   Some t \<Rightarrow>
                     Inr (net\<lparr>peer_cfg := peer1\<lparr>peerTimer := Some t\<rparr>,
                              lldp_calls := lldp_calls net
                                @ [LLDP_TIMER_CREATE (ucast (TTL peer1) * TICK_INTERVAL_SEC),
                                   LLDP_TIMER_START]\<rparr>)
                 | None \<Rightarrow>
                     Inr (net\<lparr>peer_cfg := peer1\<lparr>peerTimer := None\<rparr>,
                              lldp_calls := lldp_calls net
                                @ [LLDP_TIMER_CREATE (ucast (TTL peer1) * TICK_INTERVAL_SEC)]\<rparr>))
            | Some t \<Rightarrow>
                Inr (net\<lparr>peer_cfg :=
                            peer1\<lparr>peerTimer := Some (t\<lparr>us := ucast (TTL peer1) * TICK_INTERVAL_SEC\<rparr>)\<rparr>,
                         lldp_calls := lldp_calls net @ [LLDP_TIMER_STOP, LLDP_TIMER_START]\<rparr>)))"

text \<open>
  The \<open>switch\<close> on the TLV type. Organisation-specific TLVs write only members that are
  left out of the peer record here; every other type is skipped.
\<close>

definition pf_lldp_recv_tlv ::
  "lldp_sizes \<Rightarrow> (nat \<Rightarrow> int) \<Rightarrow> os_timer option \<Rightarrow> pnet_lldp \<Rightarrow> u8 list \<Rightarrow> u8 list \<Rightarrow> nat
     \<Rightarrow> u8 \<Rightarrow> nat \<Rightarrow> lldp_abort + (pnet_lldp \<times> u8 list)" where
  "pf_lldp_recv_tlv sz diag_update_ret timer_create_ret net alias p pData typ ln =
     (if typ = LLDP_TYPE_CHASSIS_ID then
        (case pf_lldp_recv_chassis_id sz net p pData ln of
           Inl e \<Rightarrow> Inl e | Inr net1 \<Rightarrow> Inr (net1, alias))
      else if typ = LLDP_TYPE_PORT_ID then
        pf_lldp_recv_port_id sz diag_update_ret net alias p pData ln
      else if typ = LLDP_TYPE_TTL then
        (case pf_lldp_recv_ttl timer_create_ret net p pData of
           Inl e \<Rightarrow> Inl e | Inr net1 \<Rightarrow> Inr (net1, alias))
      else Inr (net, alias))"

text \<open>
  The \<open>while\<close> loop of \<open>pf_lldp_recv\<close>: handle the TLV at \<open>pData\<close>, step over its
  value, read the next header. Every round moves \<open>pData\<close> forward by at least the two
  header bytes, and a header beyond the buffer stops the model, so the loop ends.
\<close>

function pf_lldp_recv_loop ::
  "lldp_sizes \<Rightarrow> (nat \<Rightarrow> int) \<Rightarrow> os_timer option \<Rightarrow> pnet_lldp \<Rightarrow> u8 list \<Rightarrow> u8 list \<Rightarrow> nat
     \<Rightarrow> u8 \<Rightarrow> nat \<Rightarrow> lldp_abort + pnet_lldp" where
  "pf_lldp_recv_loop sz diag_update_ret timer_create_ret net alias p pData typ ln =
     (if typ \<noteq> LLDP_TYPE_END then
        (case pf_lldp_recv_tlv sz diag_update_ret timer_create_ret net alias p pData typ ln of
           Inl e \<Rightarrow> Inl e
         | Inr (net1, alias1) \<Rightarrow>
            (case lldp_get_header p (pData + ln) of
               Inl e \<Rightarrow> Inl e
             | Inr (typ1, ln1) \<Rightarrow>
                 pf_lldp_recv_loop sz diag_update_ret timer_create_ret net1 alias1 p
                   (pData + ln + 2) typ1 ln1))
      else Inr net)"
  by pat_completeness auto
termination
  by (relation "measure (\<lambda>(sz, d, t, net, alias, p, pData, typ, ln). Suc (length p) - pData)")
     (auto simp: lldp_get_header_def split: if_splits)

text \<open>
  \<open>pf_lldp_recv\<close>: the first header is read at \<open>frame_pos\<close> of the payload, \<open>_Alias\<close>
  starts empty.
\<close>

definition pf_lldp_recv ::
  "lldp_sizes \<Rightarrow> (nat \<Rightarrow> int) \<Rightarrow> os_timer option \<Rightarrow> pnet_lldp \<Rightarrow> os_buf \<Rightarrow> nat
     \<Rightarrow> lldp_abort + pnet_lldp" where
  "pf_lldp_recv sz diag_update_ret timer_create_ret net p_frame_buf frame_pos =
     (case lldp_get_header (payload p_frame_buf) frame_pos of
        Inl e \<Rightarrow> Inl e
      | Inr (typ, ln) \<Rightarrow>
          pf_lldp_recv_loop sz diag_update_ret timer_create_ret net [] (payload p_frame_buf)
            (frame_pos + 2) typ ln)"


section \<open>LLDP: scenario values and specification-side definitions\<close>

text \<open>
  The remote mismatch alarm for one AR as the specification words it, with the fallback
  to \<open>add\<close> kept for the mismatch case only: the item says \<open>APPEARS\<close> with the three
  diagnosis bits set if the aliases differ, \<open>DISAPPEARS\<close> with the bits clear otherwise;
  \<open>update\<close> comes first, \<open>add\<close> follows if the aliases differ and the update failed,
  the port change notification comes last.
\<close>

definition spec_remote_mismatch_item :: "bool \<Rightarrow> pf_diag_item" where
  "spec_remote_mismatch_item differs =
     \<lparr>alarm_spec = \<lparr>channel_diagnosis = differs, manufacturer_diagnosis = False,
                     submodule_diagnosis = differs, ar_diagnosis = differs\<rparr>,
      ch_properties = (if differs then PNET_DIAG_CH_PROP_SPEC_APPEARS
                       else PNET_DIAG_CH_PROP_SPEC_DISAPPEARS),
      usi = PF_USI_EXTENDED_CHANNEL_DIAGNOSIS,
      ch_nbr = PF_USI_CHANNEL_DIAGNOSIS,
      ch_error_type = PF_WRT_ERROR_REMOTE_MISMATCH,
      ext_ch_error_type = PF_WRT_ERROR_PORTID_MISMATCH,
      ext_ch_add_value = 0,
      qual_ch_qualifier = 0\<rparr>"

definition spec_remote_mismatch_calls :: "(nat \<Rightarrow> int) \<Rightarrow> bool \<Rightarrow> nat \<Rightarrow> lldp_event list" where
  "spec_remote_mismatch_calls diag_update_ret differs ix =
     [PF_DIAG_UPDATE ix (spec_remote_mismatch_item differs)]
     @ (if differs \<and> diag_update_ret ix \<noteq> 0
        then [PF_DIAG_ADD ix (spec_remote_mismatch_item differs)] else [])
     @ [PF_ALARM_SEND_PORT_CHANGE_NOTIFICATION ix (spec_remote_mismatch_item differs)]"

text \<open>The calls for every AR in use, in the order of the array.\<close>

definition spec_remote_mismatch_all ::
  "(nat \<Rightarrow> int) \<Rightarrow> bool \<Rightarrow> nat \<Rightarrow> pf_ar list \<Rightarrow> lldp_event list" where
  "spec_remote_mismatch_all diag_update_ret differs ix0 ars =
     concat (map (\<lambda>(ix, a). if in_use a then spec_remote_mismatch_calls diag_update_ret differs ix
                              else [])
               (zip [ix0..<ix0 + length ars] ars))"

text \<open>A diagnosis store in which every update fails.\<close>

definition diag_update_fails :: "nat \<Rightarrow> int" where
  "diag_update_fails ix = - 1"

text \<open>
  An LLDP state right after \<open>pf_lldp_init\<close>, with one AR in use and both alias names
  empty; array sizes of 256 bytes.
\<close>

definition scenario_lldp_net :: pnet_lldp where
  "scenario_lldp_net =
     \<lparr>cmrpc_ar = [scenario_ar], perm_alias_name = [], temp_alias_name = [],
      peer_cfg = \<lparr>PeerChassisID = [], PeerChassisIDLen = 0, PeerPortID = [], PeerPortIDLen = 0,
                  TTL = 0, peerTimer = None\<rparr>,
      lldp_calls = []\<rparr>"

definition scenario_sizes :: lldp_sizes where
  "scenario_sizes = \<lparr>sizeof_PeerChassisID = 256, sizeof_PeerPortID = 256,
                      sizeof_frame_value = 256, sizeof_alias_name = 256\<rparr>"

text \<open>What a run of the receive or alarm path leaves: the calls made, the TTL stored.\<close>

definition lldp_calls_of :: "lldp_abort + pnet_lldp \<Rightarrow> lldp_abort + lldp_event list" where
  "lldp_calls_of r = map_sum id lldp_calls r"

definition peer_TTL_of :: "lldp_abort + pnet_lldp \<Rightarrow> lldp_abort + u16" where
  "peer_TTL_of r = map_sum id (\<lambda>net. TTL (peer_cfg net)) r"

text \<open>
  The TTL round trip: the frame builder writes the TTL TLV and the end marker at
  position \<open>pos\<close> of a buffer, and \<open>pf_lldp_recv\<close> decodes from there.
\<close>

definition ttl_round_trip ::
  "lldp_sizes \<Rightarrow> (nat \<Rightarrow> int) \<Rightarrow> os_timer option \<Rightarrow> pnet_lldp \<Rightarrow> u8 list \<Rightarrow> nat \<Rightarrow> u16
     \<Rightarrow> lldp_abort + pnet_lldp" where
  "ttl_round_trip sz diag_update_ret timer_create_ret net buf pos t =
     (case pf_lldp_tlv_header (lldp_add_ttl_tlv \<lparr>lldp_cfg = \<lparr>ttl = t\<rparr>\<rparr> (buf, pos))
             LLDP_TYPE_END 0 of
        (p_buf, p_pos) \<Rightarrow>
          pf_lldp_recv sz diag_update_ret timer_create_ret net
            \<lparr>payload = p_buf, len = of_nat p_pos\<rparr> pos)"


text \<open>
  The alias as the specification words it, on the two identifiers as received: the port
  id alone when it contains a dot, otherwise port id, a dot, chassis id.
\<close>

definition spec_alias :: "u8 list \<Rightarrow> u8 list \<Rightarrow> u8 list" where
  "spec_alias port_id chassis_id =
     (if DOT \<in> set port_id then port_id else port_id @ [DOT] @ chassis_id)"

text \<open>
  A frame body with the Chassis ID TLV \<open>dut\<close> (header at 0), the Port ID TLV
  \<open>port-003\<close> (header at 6) and the end marker; each value starts with its subtype byte.
\<close>

definition scenario_lldp_frame :: "u8 list" where
  "scenario_lldp_frame =
     [0x02, 0x04, 0x07, 0x64, 0x75, 0x74,
      0x04, 0x09, 0x07, 0x70, 0x6F, 0x72, 0x74, 0x2D, 0x30, 0x30, 0x33,
      0x00, 0x00]"

definition temp_alias_name_of :: "lldp_abort + pnet_lldp \<Rightarrow> lldp_abort + u8 list" where
  "temp_alias_name_of r = map_sum id temp_alias_name r"

text \<open>
  A frame body as \<open>lldp_add_chassis_id_tlv\<close> and \<open>lldp_add_port_id_tlv\<close> write it
  for a device without a configured chassis id: the Chassis ID TLV carries subtype 4 and
  the MAC address 00:0E:8C:11:22:33, the Port ID TLV subtype 7 and \<open>port-001\<close>.
\<close>

definition scenario_mac_chassis_id :: "u8 list" where
  "scenario_mac_chassis_id = [0x00, 0x0E, 0x8C, 0x11, 0x22, 0x33]"

definition scenario_mac_port_id :: "u8 list" where
  "scenario_mac_port_id = [0x70, 0x6F, 0x72, 0x74, 0x2D, 0x30, 0x30, 0x31]"

definition scenario_mac_frame :: "u8 list" where
  "scenario_mac_frame =
     [0x02, 0x07, 0x04] @ scenario_mac_chassis_id
     @ [0x04, 0x09, 0x07] @ scenario_mac_port_id
     @ [0x00, 0x00]"


section \<open>Compensated delay\<close>

lemma delay_nat:
  assumes s: "0 < s"
    and r: "pf_ppm_calculate_compensated_delay rtos w s = Inr d"
  shows "1 \<le> spec_number_of_stack_tics (unat w) (unat s)
       \<and> unat d = spec_number_of_stack_tics (unat w) (unat s) * unat s
                    - (if rtos then 0 else unat s div 2)"
proof -
  define W S H and M :: nat where "W = unat w" and "S = unat s" and "H = unat s div 2"
    and "M = 2 ^ 32"
  have S0: "0 < S" using s by (simp add: word_less_nat_alt S_def)
  have WM: "W < M" and SM: "S < M"
    using unsigned_less [of w] unsigned_less [of s] by (simp_all add: W_def S_def M_def)
  have uh: "unat (s div 2) = H" by (simp add: unat_div H_def)
  have HS: "H < S" using S0 by (simp add: H_def S_def)
  have ut: "unat (s + s div 2) = (S + H) mod M"
    by (simp add: unat_word_ariths uh [unfolded H_def] mod_simps S_def H_def M_def)
  have uw: "unat (w + s div 2) = (W + H) mod M"
    by (simp add: unat_word_ariths uh [unfolded H_def] mod_simps W_def H_def M_def)
  have sne: "s \<noteq> 0" using s by simp
  have goal: "1 \<le> T \<and> unat d = T * S - (if rtos then 0 else H)"
    if T: "T = (if S + H < W then (W + H) div S else 1)" for T
  proof (cases "s + s div 2 < w")
    case False
    then have le: "W \<le> (S + H) mod M" by (simp add: word_less_nat_alt ut not_less W_def)
    have "(S + H) mod M \<le> S + H" by simp
    with le have "W \<le> S + H" by (rule order_trans)
    then have T1: "T = 1" by (simp add: T)
    from False r sne have d: "d = (if rtos then s else s - s div 2)"
      by (auto simp: pf_ppm_calculate_compensated_delay_def Let_def split: if_splits)
    have "s div 2 \<le> s" using HS by (simp add: word_le_nat_alt uh S_def)
    then have "unat (s - s div 2) = S - H" by (simp add: unat_sub uh S_def)
    with d T1 show ?thesis by (simp add: S_def)
  next
    case True
    define n where "n = (w + s div 2) div s"
    from True r sne have n1: "1 \<le> n" and d: "d = (if rtos then n * s else n * s - s div 2)"
      by (auto simp: pf_ppm_calculate_compensated_delay_def Let_def n_def split: if_splits)
    have un: "unat n = ((W + H) mod M) div S" by (simp add: unat_div uw n_def S_def)
    from n1 have N1: "1 \<le> unat n" by (simp add: word_le_nat_alt)
    have ge: "S \<le> (W + H) mod M"
    proof (rule ccontr)
      assume "\<not> S \<le> (W + H) mod M"
      then have "((W + H) mod M) div S = 0" by simp
      with N1 un show False by simp
    qed
    have nowrap: "W + H < M"
    proof (rule ccontr)
      assume a: "\<not> W + H < M"
      have "W + H < M + M" using WM SM HS by linarith
      then have "W + H - M < M" by linarith
      moreover from a have "(W + H) mod M = (W + H - M) mod M" by (simp add: le_mod_geq)
      ultimately have "(W + H) mod M = W + H - M" by simp
      with ge WM HS show False by linarith
    qed
    then have un': "unat n = (W + H) div S" using un by simp
    from True have lt: "(S + H) mod M < W" by (simp add: word_less_nat_alt ut W_def)
    have Tn: "T = unat n"
    proof (cases "S + H < M")
      case True
      with lt show ?thesis by (simp add: T un')
    next
      case False
      with WM have nb: "\<not> S + H < W" by linarith
      from False nowrap HS have "W + H < 2 * S" by linarith
      then have "(W + H) div S < 2" using S0 by (simp add: less_mult_imp_div_less)
      with N1 un' have "unat n = 1" by linarith
      with nb show ?thesis by (simp add: T)
    qed
    have "unat n * S \<le> W + H" using un' by simp
    with nowrap have "unat n * S < M" by linarith
    then have prod: "unat (n * s) = unat n * S"
      by (simp add: unat_word_ariths S_def M_def)
    have "S \<le> unat n * S" using N1 by (cases "unat n") auto
    with HS have "H \<le> unat n * S" by linarith
    then have "s div 2 \<le> n * s" by (simp add: word_le_nat_alt uh prod)
    then have "unat (n * s - s div 2) = unat n * S - H" by (simp add: unat_sub uh prod)
    with d prod Tn N1 show ?thesis by simp
  qed
  show ?thesis
    using goal [OF refl] unfolding spec_number_of_stack_tics_def W_def S_def H_def by simp
qed

lemma delay_returns:
  assumes s: "0 < s" and w31: "unat w < 2 ^ 31" and s31: "unat s < 2 ^ 31"
  shows "\<exists>d. pf_ppm_calculate_compensated_delay rtos w s = Inr d"
proof -
  define W S H where "W = unat w" and "S = unat s" and "H = unat s div 2"
  have S0: "0 < S" using s by (simp add: word_less_nat_alt S_def)
  have sne: "s \<noteq> 0" using s by simp
  have uh: "unat (s div 2) = H" by (simp add: unat_div H_def)
  have HS: "H < S" using S0 by (simp add: H_def S_def)
  have W31: "W < 2 ^ 31" and S31: "S < 2 ^ 31" using w31 s31 by (simp_all add: W_def S_def)
  have ut: "unat (s + s div 2) = S + H"
    using s31 by (simp add: unat_word_ariths uh [unfolded H_def] S_def H_def)
  have uw: "unat (w + s div 2) = W + H"
    using s31 w31 by (simp add: unat_word_ariths uh [unfolded H_def] W_def H_def)
  show ?thesis
  proof (cases "s + s div 2 < w")
    case False
    then show ?thesis using sne
      by (simp add: pf_ppm_calculate_compensated_delay_def Let_def)
  next
    case True
    define n where "n = (w + s div 2) div s"
    have un: "unat n = (W + H) div S" by (simp add: unat_div uw n_def S_def)
    from True have "S + H < W" by (simp add: word_less_nat_alt ut W_def)
    then have "S \<le> W + H" by simp
    then have "1 \<le> (W + H) div S" using S0
      by (simp add: Suc_le_eq div_greater_zero_iff)
    then have n1: "1 \<le> n" by (simp add: word_le_nat_alt un)
    have "(W + H) div S < 2 ^ 31"
    proof (cases "S = 1")
      case True then show ?thesis using W31 HS by simp
    next
      case False
      with S0 have "2 \<le> S" by simp
      then have "(W + H) div S \<le> (W + H) div 2" by (simp add: div_le_mono2)
      also have "\<dots> < 2 ^ 31" using W31 S31 HS by simp
      finally show ?thesis .
    qed
    then have n2: "n < 0x80000000" by (simp add: word_less_nat_alt un)
    from True n1 n2 sne show ?thesis
      by (simp add: pf_ppm_calculate_compensated_delay_def Let_def n_def)
  qed
qed

text \<open>
  Claim C3 as stated fails: on the cooperative path a wanted delay of 0 with a stack
  cycle of 1000 microseconds yields 500, which is less than one stack cycle.
\<close>

theorem compensated_delay_counterexample:
  "pf_ppm_calculate_compensated_delay False 0 1000 = Inr 500 \<and> \<not> (1000 :: u32) \<le> 500"
  by (simp add: pf_ppm_calculate_compensated_delay_def)

text \<open>
  Claim C3, amended. For a stack cycle time above 0: the function returns whenever both
  arguments are below \<open>2^31\<close>; and whenever it returns (both assertions hold), the delay
  is \<open>ticks * stack_cycle_time\<close> on the preemptive path and
  \<open>ticks * stack_cycle_time - stack_cycle_time / 2\<close> on the cooperative path, without
  wrap-around, with \<open>ticks\<close> as the specification words it. So the delay is at least
  one stack cycle on the preemptive path and at least one stack cycle less half a cycle
  on the cooperative path; and a wanted delay of at most one and a half stack cycles
  gives exactly one tick.
\<close>

theorem compensated_delay_amended:
  assumes s: "0 < s"
  shows "(unat w < 2 ^ 31 \<and> unat s < 2 ^ 31
            \<longrightarrow> (\<exists>d. pf_ppm_calculate_compensated_delay rtos w s = Inr d))
       \<and> (\<forall>d. pf_ppm_calculate_compensated_delay rtos w s = Inr d \<longrightarrow>
             unat d = spec_number_of_stack_tics (unat w) (unat s) * unat s
                        - (if rtos then 0 else unat s div 2)
           \<and> (if rtos then unat s \<le> unat d else unat s - unat s div 2 \<le> unat d)
           \<and> (unat w \<le> unat s + unat s div 2 \<longrightarrow> d = (if rtos then s else s - s div 2)))"
proof (intro conjI allI impI)
  assume "unat w < 2 ^ 31 \<and> unat s < 2 ^ 31"
  then show "\<exists>d. pf_ppm_calculate_compensated_delay rtos w s = Inr d"
    using delay_returns [OF s] by blast
next
  fix d
  assume r: "pf_ppm_calculate_compensated_delay rtos w s = Inr d"
  define T where "T = spec_number_of_stack_tics (unat w) (unat s)"
  define S H where "S = unat s" and "H = unat s div 2"
  from delay_nat [OF s r] have T1: "1 \<le> T" and d: "unat d = T * S - (if rtos then 0 else H)"
    by (simp_all add: T_def S_def H_def)
  show "unat d = spec_number_of_stack_tics (unat w) (unat s) * unat s
                   - (if rtos then 0 else unat s div 2)"
    using d by (simp add: T_def S_def H_def)
  have TS: "S \<le> T * S" using T1 by (cases T) auto
  have "if rtos then S \<le> unat d else S - H \<le> unat d"
    using TS d by (cases rtos) (simp_all add: diff_le_mono)
  then show "if rtos then unat s \<le> unat d else unat s - unat s div 2 \<le> unat d"
    unfolding S_def H_def .
  assume le: "unat w \<le> unat s + unat s div 2"
  then have "T = 1" by (simp add: T_def spec_number_of_stack_tics_def)
  with d have d1: "unat d = S - (if rtos then 0 else H)" by simp
  have "unat (s div 2) = H" by (simp add: unat_div H_def)
  moreover have "H \<le> S" by (simp add: H_def S_def)
  ultimately have "unat (s - s div 2) = S - H"
    by (simp add: unat_sub word_le_nat_alt S_def)
  with d1 show "d = (if rtos then s else s - s div 2)"
    by (cases rtos) (simp_all add: S_def word_unat_eq_iff)
qed

text \<open>
  Witness for C3: a stack cycle of 1000 microseconds. A wanted delay of 1000 gives one
  tick on either path; a wanted delay of 4000 gives four ticks less half a cycle on the
  cooperative path.
\<close>

theorem compensated_delay_amended_witness:
  "(0 :: u32) < 1000
   \<and> pf_ppm_calculate_compensated_delay True 1000 1000 = Inr 1000
   \<and> pf_ppm_calculate_compensated_delay False 1000 1000 = Inr 500
   \<and> pf_ppm_calculate_compensated_delay False 4000 1000 = Inr 3500
   \<and> unat (3500 :: u32) = spec_number_of_stack_tics (unat (4000 :: u32)) (unat (1000 :: u32))
         * unat (1000 :: u32) - unat (1000 :: u32) div 2"
proof -
  have h: "(0 :: u32) < 1000" by simp
  have r: "pf_ppm_calculate_compensated_delay False 4000 1000 = Inr 3500"
    by (simp add: pf_ppm_calculate_compensated_delay_def)
  have "unat (3500 :: u32) = spec_number_of_stack_tics (unat (4000 :: u32)) (unat (1000 :: u32))
         * unat (1000 :: u32) - (if False then 0 else unat (1000 :: u32) div 2)"
    using compensated_delay_amended [OF h, of 4000 False] r by blast
  then show ?thesis using h r by (simp add: pf_ppm_calculate_compensated_delay_def)
qed

section \<open>Activation in RUN, close, data status\<close>

text \<open>
  Claim C5. Activating a PPM instance that is already in RUN returns \<open>-1\<close>, writes the
  error class PPM and the error code INVALID_STATE into the AR, and leaves every IOCR of
  the AR, so the instance's send buffer, staging buffer, offsets and state, as it was.
\<close>

theorem activate_req_in_run_rejected:
  assumes "crep < length (iocrs p_ar)"
    and "state (ppm (iocrs p_ar ! crep)) = PF_PPM_STATE_RUN"
  shows "\<exists>net' ar'. pf_ppm_activate_req rtos alloc_ret timer_ret sched_ret net p_ar crep
                       = Inr (- 1, net', ar')
           \<and> err_cls ar' = PNET_ERROR_CODE_1_PPM
           \<and> err_code ar' = PNET_ERROR_CODE_2_PPM_INVALID_STATE
           \<and> iocrs ar' = iocrs p_ar"
  using assms unfolding pf_ppm_activate_req_def Let_def by simp

text \<open>Witness for C5: the scenario IOCR, put into RUN, is activated again.\<close>

theorem activate_req_in_run_rejected_witness:
  "(0 :: nat) < length (iocrs (set_ppm scenario_ar 0 (scenario_ppm\<lparr>state := PF_PPM_STATE_RUN\<rparr>)))
   \<and> state (ppm (iocrs (set_ppm scenario_ar 0 (scenario_ppm\<lparr>state := PF_PPM_STATE_RUN\<rparr>)) ! 0))
       = PF_PPM_STATE_RUN
   \<and> (\<exists>net' ar'. pf_ppm_activate_req False None None None scenario_net
                    (set_ppm scenario_ar 0 (scenario_ppm\<lparr>state := PF_PPM_STATE_RUN\<rparr>)) 0
                    = Inr (- 1, net', ar')
         \<and> err_cls ar' = PNET_ERROR_CODE_1_PPM
         \<and> err_code ar' = PNET_ERROR_CODE_2_PPM_INVALID_STATE
         \<and> iocrs ar' = iocrs (set_ppm scenario_ar 0 (scenario_ppm\<lparr>state := PF_PPM_STATE_RUN\<rparr>)))"
proof -
  have h1: "(0 :: nat) < length (iocrs (set_ppm scenario_ar 0 (scenario_ppm\<lparr>state := PF_PPM_STATE_RUN\<rparr>)))"
    by (simp add: set_ppm_def scenario_ar_def)
  have h2: "state (ppm (iocrs (set_ppm scenario_ar 0 (scenario_ppm\<lparr>state := PF_PPM_STATE_RUN\<rparr>)) ! 0))
       = PF_PPM_STATE_RUN"
    by (simp add: set_ppm_def scenario_ar_def)
  show ?thesis
    using h1 h2 activate_req_in_run_rejected [OF h1 h2, of False None None None scenario_net]
    by blast
qed

text \<open>
  Claim C9. \<open>pf_ppm_close_req\<close> returns 0 whatever the state of the instance is, and
  leaves \<open>ci_running\<close> false and the state \<open>W_START\<close>; it always hands the send buffer
  pointer to \<open>os_buf_free\<close> and always decrements the instance counter, also for an
  instance that was never activated.
\<close>

theorem close_req_unconditional:
  assumes "crep < length (iocrs p_ar)"
  shows "\<exists>net' ar'. pf_ppm_close_req rtos net p_ar crep = (0, net', ar')
           \<and> ci_running (ppm (iocrs ar' ! crep)) = False
           \<and> state (ppm (iocrs ar' ! crep)) = PF_PPM_STATE_W_START
           \<and> ppm_instance_cnt net' = ppm_instance_cnt net - 1
           \<and> OS_BUF_FREE (p_send_buffer (ppm (iocrs p_ar ! crep)))
               \<in> set (drop (length (os_calls net)) (os_calls net'))"
  using assms unfolding pf_ppm_close_req_def Let_def pf_ppm_set_state_def set_ppm_def log_call_def
  by (auto split: option.splits prod.splits if_splits)

text \<open>
  Witness for C9: the scenario instance was never activated (state \<open>W_START\<close>,
  counter 0, no send buffer); closing it frees the \<open>NULL\<close> buffer pointer and wraps the
  counter to \<open>0xFFFFFFFF\<close>.
\<close>

theorem close_req_unconditional_witness:
  "(0 :: nat) < length (iocrs scenario_ar)
   \<and> state (ppm (iocrs scenario_ar ! 0)) = PF_PPM_STATE_W_START
   \<and> (\<exists>net' ar'. pf_ppm_close_req False scenario_net scenario_ar 0 = (0, net', ar')
         \<and> ci_running (ppm (iocrs ar' ! 0)) = False
         \<and> state (ppm (iocrs ar' ! 0)) = PF_PPM_STATE_W_START
         \<and> ppm_instance_cnt net' = 0xFFFFFFFF
         \<and> OS_BUF_FREE None \<in> set (os_calls net'))"
proof -
  have h: "(0 :: nat) < length (iocrs scenario_ar)" by (simp add: scenario_ar_def)
  have st: "state (ppm (iocrs scenario_ar ! 0)) = PF_PPM_STATE_W_START"
    by (simp add: scenario_ar_def scenario_iocr_def scenario_ppm_def)
  have sb: "p_send_buffer (ppm (iocrs scenario_ar ! 0)) = None"
    by (simp add: scenario_ar_def scenario_iocr_def scenario_ppm_def)
  have cnt: "ppm_instance_cnt scenario_net - 1 = 0xFFFFFFFF" "os_calls scenario_net = []"
    by (simp_all add: scenario_net_def)
  show ?thesis
    using h st close_req_unconditional [OF h, of False scenario_net]
    unfolding sb cnt by simp
qed

lemma set_bit_other: "k \<noteq> n \<Longrightarrow> bit ((d::u8) OR BIT n) k = bit d k"
  by (auto simp: BIT_def bit_simps)

lemma clr_bit_other: "k \<noteq> n \<Longrightarrow> bit ((d::u8) AND NOT (BIT n)) k = bit d k"
  by (auto simp: BIT_def bit_simps dest: bit_imp_le_length)

lemma only_bit_set:
  "only_data_status_bit n p_ar crep
     (0, set_ppm p_ar crep
           ((ppm (iocrs p_ar ! crep))\<lparr>data_status := data_status (ppm (iocrs p_ar ! crep)) OR BIT n\<rparr>))"
  unfolding only_data_status_bit_def set_ppm_def
  by (auto simp: set_bit_other intro!: exI[where x="data_status (ppm (iocrs p_ar ! crep)) OR BIT n"])

lemma only_bit_clr:
  "only_data_status_bit n p_ar crep
     (0, set_ppm p_ar crep
           ((ppm (iocrs p_ar ! crep))\<lparr>data_status := data_status (ppm (iocrs p_ar ! crep)) AND NOT (BIT n)\<rparr>))"
  unfolding only_data_status_bit_def set_ppm_def
  by (auto simp: clr_bit_other intro!: exI[where x="data_status (ppm (iocrs p_ar ! crep)) AND NOT (BIT n)"])

text \<open>
  Claim C10. Each of \<open>pf_ppm_set_data_status_state\<close>,
  \<open>pf_ppm_set_data_status_redundancy\<close> and \<open>pf_ppm_set_data_status_provider\<close> returns 0
  and changes at most bit 0, bit 1 and bit 4, respectively, of the \<open>data_status\<close> byte of
  the addressed IOCR; all other bits of that byte, all other fields of the PPM record
  and everything else in the AR stay as they were.
\<close>

theorem data_status_setters_change_one_bit:
  assumes "crep < length (iocrs p_ar)"
  shows "only_data_status_bit 0 p_ar crep (pf_ppm_set_data_status_state p_ar crep b)
       \<and> only_data_status_bit 1 p_ar crep (pf_ppm_set_data_status_redundancy p_ar crep b)
       \<and> only_data_status_bit 4 p_ar crep (pf_ppm_set_data_status_provider p_ar crep b)"
  unfolding pf_ppm_set_data_status_state_def pf_ppm_set_data_status_redundancy_def
    pf_ppm_set_data_status_provider_def Let_def
    PNET_DATA_STATUS_BIT_STATE_def PNET_DATA_STATUS_BIT_REDUNDANCY_def
    PNET_DATA_STATUS_BIT_PROVIDER_STATE_def
  by (simp add: only_bit_set only_bit_clr)

text \<open>
  Witness for C10: on the scenario AR the three setters keep the frame condition, and
  setting the provider state on a zero data status gives \<open>0x10\<close>.
\<close>

theorem data_status_setters_change_one_bit_witness:
  "(0::nat) < length (iocrs scenario_ar)
   \<and> only_data_status_bit 0 scenario_ar 0 (pf_ppm_set_data_status_state scenario_ar 0 True)
   \<and> only_data_status_bit 1 scenario_ar 0 (pf_ppm_set_data_status_redundancy scenario_ar 0 True)
   \<and> only_data_status_bit 4 scenario_ar 0 (pf_ppm_set_data_status_provider scenario_ar 0 True)
   \<and> data_status (ppm (hd (iocrs (snd (pf_ppm_set_data_status_provider scenario_ar 0 True))))) = 0x10"
proof -
  have h: "(0::nat) < length (iocrs scenario_ar)" by (simp add: scenario_ar_def)
  have v: "data_status (ppm (hd (iocrs (snd (pf_ppm_set_data_status_provider scenario_ar 0 True))))) = 0x10"
    by (simp add: pf_ppm_set_data_status_provider_def set_ppm_def scenario_ar_def scenario_iocr_def
        scenario_ppm_def BIT_def PNET_DATA_STATUS_BIT_PROVIDER_STATE_def)
  show ?thesis using h v data_status_setters_change_one_bit [OF h, of True] by simp
qed

section \<open>Send buffer layout and cycle counter\<close>

lemma length_memcpy_at:
  "off + length src \<le> length dst \<Longrightarrow> length (memcpy_at dst off src) = length dst"
  by (simp add: memcpy_at_def)

lemma take_memcpy_at:
  "n \<le> off \<Longrightarrow> off \<le> length dst \<Longrightarrow> take n (memcpy_at dst off src) = take n dst"
  by (simp add: memcpy_at_def min_def)

lemma nth_memcpy_at_before:
  "i < off \<Longrightarrow> off \<le> length dst \<Longrightarrow> memcpy_at dst off src ! i = dst ! i"
  by (simp add: memcpy_at_def nth_append)

lemma nth_memcpy_at_in:
  "off \<le> i \<Longrightarrow> i < off + length src \<Longrightarrow> off \<le> length dst
     \<Longrightarrow> memcpy_at dst off src ! i = src ! (i - off)"
  by (auto simp add: memcpy_at_def nth_append min_def)

lemma nth_memcpy_at_after:
  "off + length src \<le> i \<Longrightarrow> i < length dst
     \<Longrightarrow> memcpy_at dst off src ! i = dst ! i"
  by (auto simp add: memcpy_at_def nth_append min_def)

lemma init_buf_len: "len (pf_ppm_init_buf p b fid h) = buffer_length p"
  by (simp add: pf_ppm_init_buf_def Let_def)

lemma init_buf_length:
  assumes "20 \<le> unat (buffer_length p)" "unat (buffer_length p) \<le> length (payload b)"
  shows "length (payload (pf_ppm_init_buf p b fid h)) = length (payload b)"
  using assms
  by (cases "da p"; cases "sa p")
     (simp add: pf_ppm_init_buf_def Let_def length_memcpy_at memset0_def be16_def)

lemma memcpy_at_append:
  "off + length src \<le> length xs \<Longrightarrow> memcpy_at (xs @ ys) off src = memcpy_at xs off src @ ys"
  by (simp add: memcpy_at_def)

lemma replicate_20: "replicate 20 (0 :: u8) = [0,0,0,0,0,0,0,0,0,0,0,0,0,0,0,0,0,0,0,0]"
  by (simp add: numeral_eq_Suc)

lemma init_buf_payload:
  assumes "20 \<le> unat (buffer_length p)"
  shows "payload (pf_ppm_init_buf p b fid h)
         = addr (da p) @ addr (sa p) @ be16 OS_ETHTYPE_VLAN
           @ be16 ((vlan_id h AND 0x0FFF) OR push_bit 13 (ucast (iocr_user_priority h) AND 0x0007))
           @ be16 OS_ETHTYPE_PROFINET @ be16 fid
           @ replicate (unat (buffer_length p) - 20) 0 @ drop (unat (buffer_length p)) (payload b)"
proof -
  obtain k where k: "unat (buffer_length p) = 20 + k"
    using assms by (metis le_Suc_ex)
  obtain a1 a2 a3 a4 a5 a6 where da: "da p = Ethaddr a1 a2 a3 a4 a5 a6" by (cases "da p")
  obtain b1 b2 b3 b4 b5 b6 where sa: "sa p = Ethaddr b1 b2 b3 b4 b5 b6" by (cases "sa p")
  have m: "memset0 (payload b) (20 + k)
           = replicate 20 0 @ (replicate k 0 @ drop (20 + k) (payload b))"
    by (simp add: memset0_def replicate_add)
  show ?thesis
    unfolding pf_ppm_init_buf_def Let_def k m da sa
    by (simp add: memcpy_at_append replicate_20 be16_def)
       (simp add: memcpy_at_def)
qed

lemma finish_buffer_layout:
  assumes r: "pf_ppm_finish_buffer now p n = Inr p'"
    and sb: "p_send_buffer p = Some buf"
    and b1: "unat (buffer_pos p) + min (unat n) (length (buffer_data p))
               \<le> unat (cycle_counter_offset p)"
    and b2: "unat (cycle_counter_offset p) + 2 \<le> unat (data_status_offset p)"
    and b3: "unat (data_status_offset p) + 1 \<le> unat (transfer_status_offset p)"
    and b4: "unat (transfer_status_offset p) < length (payload buf)"
  shows "\<exists>q. p' = p\<lparr>cycle := cycle p', p_send_buffer := Some (buf\<lparr>payload := q\<rparr>)\<rparr>
           \<and> length q = length (payload buf)
           \<and> take (unat (buffer_pos p)) q = take (unat (buffer_pos p)) (payload buf)
           \<and> q ! unat (cycle_counter_offset p) = ucast (drop_bit 8 (cycle p'))
           \<and> q ! (unat (cycle_counter_offset p) + 1) = ucast (cycle p')
           \<and> q ! unat (data_status_offset p) = data_status p
           \<and> q ! unat (transfer_status_offset p) = transfer_status p"
proof -
  define P where "P = payload buf"
  define bp cco dso tso where "bp = unat (buffer_pos p)" and "cco = unat (cycle_counter_offset p)"
    and "dso = unat (data_status_offset p)" and "tso = unat (transfer_status_offset p)"
  define src where "src = take (unat n) (buffer_data p)"
  define c where "c = cycle p'"
  define q0 where "q0 = memcpy_at P bp src"
  define q1 where "q1 = memcpy_at q0 cco (be16 c)"
  define q2 where "q2 = memcpy_at q1 dso [data_status p]"
  define q3 where "q3 = memcpy_at q2 tso [transfer_status p]"
  have ls: "length src = min (unat n) (length (buffer_data p))" by (simp add: src_def min_def)
  have B1: "bp + length src \<le> cco" using b1 by (simp add: bp_def cco_def ls)
  have B2: "cco + 2 \<le> dso" using b2 by (simp add: cco_def dso_def)
  have B3: "dso + 1 \<le> tso" using b3 by (simp add: dso_def tso_def)
  have B4: "tso < length P" using b4 by (simp add: tso_def P_def)
  from r sb have p': "p' = p\<lparr>cycle := c, p_send_buffer := Some (buf\<lparr>payload := q3\<rparr>)\<rparr>"
    by (auto simp: pf_ppm_finish_buffer_def Let_def q3_def q2_def q1_def q0_def src_def P_def
        bp_def cco_def dso_def tso_def c_def split: sum.splits)
  have l0: "length q0 = length P" unfolding q0_def
    using B1 B2 B3 B4 by (intro length_memcpy_at) linarith
  have l1: "length q1 = length P" unfolding q1_def
    using B1 B2 B3 B4 l0 by (subst length_memcpy_at) (simp_all add: be16_def)
  have l2: "length q2 = length P" unfolding q2_def
    using B1 B2 B3 B4 l1 by (subst length_memcpy_at) simp_all
  have l3: "length q3 = length P" unfolding q3_def
    using B1 B2 B3 B4 l2 by (subst length_memcpy_at) simp_all
  have t: "take bp q3 = take bp P"
  proof -
    have "take bp q3 = take bp q2" unfolding q3_def
      using B1 B2 B3 B4 l2 by (intro take_memcpy_at) simp_all
    also have "\<dots> = take bp q1" unfolding q2_def
      using B1 B2 B3 B4 l1 by (intro take_memcpy_at) simp_all
    also have "\<dots> = take bp q0" unfolding q1_def
      using B1 B2 B3 B4 l0 by (intro take_memcpy_at) simp_all
    also have "\<dots> = take bp P" unfolding q0_def
      using B1 B2 B3 B4 by (intro take_memcpy_at) simp_all
    finally show ?thesis .
  qed
  have n_cco: "q3 ! cco = ucast (drop_bit 8 c)"
  proof -
    have "q3 ! cco = q2 ! cco" unfolding q3_def
      using B2 B3 B4 l2 by (intro nth_memcpy_at_before) simp_all
    also have "\<dots> = q1 ! cco" unfolding q2_def
      using B2 B3 B4 l1 by (intro nth_memcpy_at_before) simp_all
    also have "\<dots> = be16 c ! (cco - cco)" unfolding q1_def
      using B2 B3 B4 l0 by (intro nth_memcpy_at_in) (simp_all add: be16_def)
    finally show ?thesis by (simp add: be16_def)
  qed
  have n_cco1: "q3 ! (cco + 1) = ucast c"
  proof -
    have "q3 ! (cco + 1) = q2 ! (cco + 1)" unfolding q3_def
      using B2 B3 B4 l2 by (intro nth_memcpy_at_before) simp_all
    also have "\<dots> = q1 ! (cco + 1)" unfolding q2_def
      using B2 B3 B4 l1 by (intro nth_memcpy_at_before) simp_all
    also have "\<dots> = be16 c ! (cco + 1 - cco)" unfolding q1_def
      using B2 B3 B4 l0 by (intro nth_memcpy_at_in) (simp_all add: be16_def)
    finally show ?thesis by (simp add: be16_def)
  qed
  have n_dso: "q3 ! dso = data_status p"
  proof -
    have "q3 ! dso = q2 ! dso" unfolding q3_def
      using B2 B3 B4 l2 by (intro nth_memcpy_at_before) simp_all
    also have "\<dots> = [data_status p] ! (dso - dso)" unfolding q2_def
      using B2 B3 B4 l1 by (intro nth_memcpy_at_in) simp_all
    finally show ?thesis by simp
  qed
  have n_tso: "q3 ! tso = transfer_status p"
  proof -
    have "q3 ! tso = [transfer_status p] ! (tso - tso)" unfolding q3_def
      using B2 B3 B4 l2 by (intro nth_memcpy_at_in) simp_all
    then show ?thesis by simp
  qed
  show ?thesis
    using p' l3 t n_cco n_cco1 n_dso n_tso
    unfolding P_def bp_def cco_def dso_def tso_def c_def by blast
qed


lemma sdiv_nonneg: "0 \<le> k \<Longrightarrow> 0 < l \<Longrightarrow> (k :: int) sdiv l = k div l"
  by (simp add: signed_divide_int_def sgn_if)

lemma smod_nonneg: "0 \<le> k \<Longrightarrow> 0 < l \<Longrightarrow> (k :: int) smod l = k mod l"
  by (simp add: signed_modulo_int_def sgn_if)

lemma finish_buffer_cycle_in_range:
  assumes r: "pf_ppm_finish_buffer_cycle now scf rr = Inr c"
    and t: "unat now < 2 ^ 29"
    and ratio: "unat scf * unat rr < 2 ^ 16"
  shows "unat c = spec_cycle_counter (unat now) (unat scf * unat rr) mod 2 ^ 16"
proof -
  define R where "R = unat scf * unat rr"
  define raw where "raw = unat now * 4 div 125"
  define rw where "rw = scf * rr"
  have urw: "unat rw = R" using ratio by (simp add: rw_def R_def unat_word_ariths)
  then have irw: "uint rw = int R" by (simp add: uint_nat)
  from r have rne: "rw \<noteq> 0"
    by (auto simp: pf_ppm_finish_buffer_cycle_def Let_def rw_def split: if_splits)
  then have R0: "0 < R" using urw unat_gt_0 [of rw] by simp
  define N where "N = unat now"
  have N29: "N < 2 ^ 29" using t by (simp add: N_def)
  have "unat now * unat (4 :: u32) < 2 ^ LENGTH(32)" using t by simp
  then have "unat (now * 4) = unat now * unat (4 :: u32)" by (simp only: unat_mult_lem)
  then have "unat (now * 4) = N * 4" by (simp add: N_def)
  then have u4: "uint (now * 4) = int (N * 4)" by (simp only: uint_nat)
  have "N * 4 < 2 ^ 31" using N29 by simp
  then have "int (N * 4) < int (2 ^ 31)" by (simp only: of_nat_less_iff)
  then have lt31: "int (N * 4) < 2 ^ 31" by simp
  have ge31: "- (2 ^ 31) \<le> int (N * 4)" by simp
  have l31: "LENGTH(32) - Suc 0 = 31" by simp
  have "sint (now * 4) = signed_take_bit 31 (int (N * 4))"
    using sint_uint [of "now * 4"] by (simp only: u4 l31)
  also have "\<dots> = int (N * 4)"
    using ge31 lt31 by (rule signed_take_bit_int_eq_self)
  finally have s4: "sint (now * 4) = int (N * 4)" .
  have c1: "sint (now * 4) sdiv 125 = int raw"
    unfolding s4 raw_def N_def [symmetric] by (subst sdiv_nonneg) (simp_all add: zdiv_int)
  have "int raw smod int R = int (raw mod R)"
    using R0 by (subst smod_nonneg) (simp_all add: zmod_int)
  moreover have "raw mod R < 2 ^ 16" using R0 ratio
    by (metis R_def mod_less_divisor order_less_trans)
  ultimately have rem: "uint (word_of_int (int raw smod int R) :: u16) = int (raw mod R)"
    by (simp add: uint_nat unat_of_nat)
  have spec: "spec_cycle_counter (unat now) R = (if raw < R then R else raw - raw mod R)"
    by (simp add: spec_cycle_counter_def raw_def Let_def)
  have le: "raw mod R \<le> raw" by simp
  from r rne have "c = word_of_int (if int raw < int R then int R else int raw - int (raw mod R))"
    unfolding pf_ppm_finish_buffer_cycle_def Let_def rw_def [symmetric] c1 irw rem
    by auto
  also have "(if int raw < int R then int R else int raw - int (raw mod R))
             = int (spec_cycle_counter (unat now) R)"
    using le by (simp add: spec of_nat_diff)
  finally have "unat c = spec_cycle_counter (unat now) R mod 2 ^ 16"
    by (simp add: unat_of_nat)
  then show ?thesis by (simp add: R_def)
qed

lemma finish_buffer_cycle_returns:
  "scf * rr \<noteq> 0 \<Longrightarrow> \<exists>c. pf_ppm_finish_buffer_cycle now scf rr = Inr c"
  by (simp add: pf_ppm_finish_buffer_cycle_def Let_def)

text \<open>
  Claim C1 fails on the code. At \<open>t = 2^29\<close> microseconds (about nine minutes after
  start) with send clock factor 32 and reduction ratio 1, the product \<open>t * 4\<close> is
  \<open>2^31\<close>, which read as \<open>int32_t\<close> is negative; the counter the code stores is 32,
  where \<open>raw - raw mod ratio\<close> with \<open>raw = t * 4 / 125\<close> is 17179840, that is 9408 in
  16 bits. The lemma before shows that below \<open>2^29\<close> microseconds, and for a ratio
  that fits 16 bits, the code computes what the claim says.
\<close>

theorem cycle_counter_int32_overflow:
  "pf_ppm_finish_buffer_cycle 0x20000000 32 1 = Inr 32
   \<and> spec_cycle_counter (unat (0x20000000 :: u32)) (unat (32 :: u16) * unat (1 :: u16)) mod 2 ^ 16
       = 9408"
  by (simp add: pf_ppm_finish_buffer_cycle_def Let_def spec_cycle_counter_def
      signed_divide_int_def signed_modulo_int_def)


lemma unat_sdu_plus:
  fixes sdu :: u16
  assumes "unat sdu \<le> 1498"
  shows "unat (20 + sdu) = 20 + unat sdu" "unat (22 + sdu) = 22 + unat sdu"
    "unat (23 + sdu) = 23 + unat sdu" "unat (24 + sdu) = 24 + unat sdu"
  using assms by (simp_all add: unat_word_ariths)

lemma activate_success:
  assumes cr: "crep < length (iocrs p_ar)"
    and st: "state (ppm (iocrs p_ar ! crep)) \<noteq> PF_PPM_STATE_RUN"
    and sdu: "unat (c_sdu_length (param (iocrs p_ar ! crep))) \<le> 1498"
    and d: "pf_ppm_calculate_compensated_delay rtos
              ((ucast (send_clock_factor (param (iocrs p_ar ! crep)))
                * ucast (reduction_ratio (param (iocrs p_ar ! crep))) * 1000) div 32)
              (scheduler_tick_interval net) = Inr d"
    and tm: "if rtos then timer_ret \<noteq> None else sched_ret \<noteq> None"
  shows "case pf_ppm_activate_req rtos (Some fresh) timer_ret sched_ret net p_ar crep of
      Inl e \<Rightarrow> False
    | Inr (r, net', ar') \<Rightarrow>
        r = 0
      \<and> ppm_instance_cnt net' = ppm_instance_cnt net + 1
      \<and> ppm_buf_lock net' = (if ppm_instance_cnt net = 0 then Some Mutex else ppm_buf_lock net)
      \<and> os_calls net' = os_calls net @ (if ppm_instance_cnt net = 0 then [OS_MUTEX_CREATE] else [])
            @ OS_BUF_ALLOC # (if rtos then [OS_TIMER_CREATE d, OS_TIMER_START] else [PF_SCHEDULER_ADD d])
      \<and> length (iocrs ar') = length (iocrs p_ar)
      \<and> in_length (iocrs ar' ! crep) = in_length (iocrs p_ar ! crep)
      \<and> (let p' = ppm (iocrs ar' ! crep); sdu = c_sdu_length (param (iocrs p_ar ! crep)) in
          state p' = PF_PPM_STATE_RUN \<and> ci_running p' \<and> \<not> first_transmit p'
        \<and> (case p_send_buffer p' of None \<Rightarrow> False
            | Some b \<Rightarrow> len b = 24 + sdu
                \<and> payload b = addr (cm_initiator_mac_add p_ar) @ addr (cm_responder_mac_add p_ar)
                    @ be16 OS_ETHTYPE_VLAN
                    @ be16 ((vlan_id (iocr_tag_header (param (iocrs p_ar ! crep))) AND 0x0FFF)
                            OR push_bit 13 (ucast (iocr_user_priority
                                 (iocr_tag_header (param (iocrs p_ar ! crep)))) AND 0x0007))
                    @ be16 OS_ETHTYPE_PROFINET @ be16 (frame_id (param (iocrs p_ar ! crep)))
                    @ replicate (unat sdu + 4) 0 @ drop (24 + unat sdu) (payload fresh))
        \<and> buffer_pos p' = 20
        \<and> cycle_counter_offset p' = 20 + sdu
        \<and> data_status_offset p' = 22 + sdu
        \<and> transfer_status_offset p' = 23 + sdu
        \<and> buffer_length p' = 24 + sdu
        \<and> data_status p' = 0x25 \<and> transfer_status p' = 0
        \<and> buffer_data p' = buffer_data (ppm (iocrs p_ar ! crep))
        \<and> ppm_send_clock_factor p' = send_clock_factor (param (iocrs p_ar ! crep))
        \<and> ppm_reduction_ratio p' = reduction_ratio (param (iocrs p_ar ! crep))
        \<and> compensated_control_interval p' = d)"
proof (cases rtos)
  case True
  with tm obtain t where t: "timer_ret = Some t" by auto
  show ?thesis
    unfolding pf_ppm_activate_req_def Let_def
    using st d True t cr sdu
    by (simp add: pf_ppm_set_state_def log_call_def set_ppm_def BIT_def PNET_DATA_STATUS_BIT_STATE_def
        PNET_DATA_STATUS_BIT_DATA_VALID_def PNET_DATA_STATUS_BIT_STATION_PROBLEM_INDICATOR_def
        init_buf_payload init_buf_len unat_sdu_plus)
next
  case False
  with tm obtain i where i: "sched_ret = Some i" by auto
  show ?thesis
    unfolding pf_ppm_activate_req_def Let_def
    using st d False i cr sdu
    by (simp add: pf_ppm_set_state_def log_call_def set_ppm_def BIT_def PNET_DATA_STATUS_BIT_STATE_def
        PNET_DATA_STATUS_BIT_DATA_VALID_def PNET_DATA_STATUS_BIT_STATION_PROBLEM_INDICATOR_def
        init_buf_payload init_buf_len unat_sdu_plus)
qed

lemma sent_frames_append: "sent_frames (xs @ ys) = sent_frames xs @ sent_frames ys"
  by (simp add: sent_frames_def)

lemma sent_frames_simps:
  "sent_frames [] = []"
  "sent_frames (OS_ETH_SEND (Some b) # es) = take (unat (len b)) (payload b) # sent_frames es"
  "sent_frames (OS_MUTEX_CREATE # es) = sent_frames es"
  "sent_frames (OS_BUF_ALLOC # es) = sent_frames es"
  "sent_frames (OS_TIMER_CREATE d # es) = sent_frames es"
  "sent_frames (OS_TIMER_START # es) = sent_frames es"
  "sent_frames (PF_SCHEDULER_ADD d # es) = sent_frames es"
  "sent_frames (PF_CMSU_PPM_ERROR_IND c1 c2 # es) = sent_frames es"
  by (simp_all add: sent_frames_def)

lemma send_running:
  assumes cr: "crep < length (iocrs p_ar)"
    and run: "ci_running (ppm (iocrs p_ar ! crep))"
    and fin: "pf_ppm_finish_buffer now ((ppm (iocrs p_ar ! crep))\<lparr>ci_timer := UINT32_MAX\<rparr>)
                (in_length (iocrs p_ar ! crep)) = Inr pp1"
    and sb: "p_send_buffer pp1 = Some b"
  shows "case pf_ppm_send rtos now eth_send_ret sched_ret net p_ar crep of
      Inl e \<Rightarrow> False
    | Inr (net', ar') \<Rightarrow>
        sent_frames (drop (length (os_calls net)) (os_calls net')) = [take (unat (len b)) (payload b)]
      \<and> take (length (os_calls net)) (os_calls net') = os_calls net
      \<and> p_send_buffer (ppm (iocrs ar' ! crep)) = Some b
      \<and> cycle (ppm (iocrs ar' ! crep)) = cycle pp1"
  unfolding pf_ppm_send_def Let_def
  using cr run fin sb
  by (auto simp: log_call_def set_ppm_def pf_ppm_state_ind_def sent_frames_simps
      split: option.splits)

lemma drop60_take64:
  assumes "64 \<le> length xs"
  shows "drop 60 (take 64 xs) = [xs ! 60, xs ! 61, xs ! 62, xs ! 63]"
proof -
  have "drop 60 (take 64 xs) = take 4 (drop 60 xs)" by (simp add: drop_take)
  also have "\<dots> = [xs ! 60, xs ! 61, xs ! 62, xs ! 63]"
    using assms by (simp add: list_eq_iff_nth_eq less_Suc_eq numeral_eq_Suc)
  finally show ?thesis .
qed

lemma first_frame_lemma:
  assumes sp: "scenario_params p_ar crep"
    and fl: "length (payload fresh) = PF_FRAME_BUFFER_SIZE"
    and bd: "unat (in_length (iocrs p_ar ! crep)) \<le> length (buffer_data (ppm (iocrs p_ar ! crep)))"
    and tick0: "0 < scheduler_tick_interval net"
    and tick31: "unat (scheduler_tick_interval net) < 2 ^ 31"
    and tm: "if rtos then timer_ret \<noteq> None else sched_ret \<noteq> None"
    and cyc: "pf_ppm_finish_buffer_cycle now 32 1 = Inr c"
  shows "\<exists>f. ppm_first_frame rtos fresh timer_ret sched_ret now eth_send_ret sched_ret2 net p_ar crep
               = Inr [f]
           \<and> length f = 64
           \<and> take 20 f = [0xAA, 0xBB, 0xCC, 0xDD, 0xEE, 0x01, 0x11, 0x22, 0x33, 0x44, 0x55, 0x66,
                           0x81, 0x00, 0xC0, 0x00, 0x88, 0x92, 0x80, 0x01]
           \<and> drop 60 f = be16 c @ [0x25, 0x00]"
proof -
  define io where "io = iocrs p_ar ! crep"
  from sp have cr: "crep < length (iocrs p_ar)"
    and scf: "send_clock_factor (param io) = 32" and rr: "reduction_ratio (param io) = 1"
    and sdu: "c_sdu_length (param io) = 40" and fid: "frame_id (param io) = 0x8001"
    and vid: "vlan_id (iocr_tag_header (param io)) = 0"
    and prio: "iocr_user_priority (iocr_tag_header (param io)) = 6"
    and ini: "cm_initiator_mac_add p_ar = Ethaddr 0xAA 0xBB 0xCC 0xDD 0xEE 0x01"
    and rsp: "cm_responder_mac_add p_ar = Ethaddr 0x11 0x22 0x33 0x44 0x55 0x66"
    and st: "state (ppm io) = PF_PPM_STATE_W_START"
    and inl: "unat (in_length io) \<le> 40"
    by (simp_all add: scenario_params_def io_def)
  have "unat (1000 :: u32) < 2 ^ 31" by simp
  from delay_returns [OF tick0 this tick31]
  obtain d where d: "pf_ppm_calculate_compensated_delay rtos 1000 (scheduler_tick_interval net) = Inr d"
    by blast
  have ci: "(ucast (send_clock_factor (param (iocrs p_ar ! crep)))
                * ucast (reduction_ratio (param (iocrs p_ar ! crep))) * 1000) div 32 = (1000 :: u32)"
    using scf rr by (simp add: io_def)
  have st': "state (ppm (iocrs p_ar ! crep)) \<noteq> PF_PPM_STATE_RUN" using st by (simp add: io_def)
  have sdu': "unat (c_sdu_length (param (iocrs p_ar ! crep))) \<le> 1498" using sdu by (simp add: io_def)
  have d': "pf_ppm_calculate_compensated_delay rtos
              ((ucast (send_clock_factor (param (iocrs p_ar ! crep)))
                * ucast (reduction_ratio (param (iocrs p_ar ! crep))) * 1000) div 32)
              (scheduler_tick_interval net) = Inr d"
    unfolding ci by (rule d)
  note act = activate_success [OF cr st' sdu' d' tm, of fresh]
  then obtain r net1 ar1 where
    a: "pf_ppm_activate_req rtos (Some fresh) timer_ret sched_ret net p_ar crep = Inr (r, net1, ar1)"
    by (auto split: sum.splits)
  define p1 where "p1 = ppm (iocrs ar1 ! crep)"
  from act a obtain b where
    oc: "os_calls net1 = os_calls net @ (if ppm_instance_cnt net = 0 then [OS_MUTEX_CREATE] else [])
            @ OS_BUF_ALLOC # (if rtos then [OS_TIMER_CREATE d, OS_TIMER_START] else [PF_SCHEDULER_ADD d])"
    and len1: "length (iocrs ar1) = length (iocrs p_ar)"
    and inl1: "in_length (iocrs ar1 ! crep) = in_length io"
    and run: "ci_running p1"
    and sb: "p_send_buffer p1 = Some b"
    and lb: "len b = 64"
    and pb: "payload b = [0xAA, 0xBB, 0xCC, 0xDD, 0xEE, 0x01, 0x11, 0x22, 0x33, 0x44, 0x55, 0x66,
                           0x81, 0x00, 0xC0, 0x00, 0x88, 0x92, 0x80, 0x01]
                         @ replicate 44 0 @ drop 64 (payload fresh)"
    and bp: "buffer_pos p1 = 20" and cco: "cycle_counter_offset p1 = 60"
    and dso: "data_status_offset p1 = 62" and tso: "transfer_status_offset p1 = 63"
    and ds: "data_status p1 = 0x25" and ts: "transfer_status p1 = 0"
    and bd1: "buffer_data p1 = buffer_data (ppm io)"
    and scf1: "ppm_send_clock_factor p1 = 32" and rr1: "ppm_reduction_ratio p1 = 1"
    by (auto simp: Let_def p1_def io_def [symmetric] sdu scf rr fid vid prio ini rsp be16_def
        OS_ETHTYPE_VLAN_def OS_ETHTYPE_PROFINET_def split: option.splits)
  have lpb: "length (payload b) = 1522"
    using fl by (simp add: pb PF_FRAME_BUFFER_SIZE_def)
  define p1' where "p1' = p1\<lparr>ci_timer := UINT32_MAX\<rparr>"
  have fin: "pf_ppm_finish_buffer now p1' (in_length io)
             = (case pf_ppm_finish_buffer now p1' (in_length io) of Inl e \<Rightarrow> Inl e | Inr x \<Rightarrow> Inr x)"
    by (simp split: sum.splits)
  obtain pp1 where pp1: "pf_ppm_finish_buffer now p1' (in_length io) = Inr pp1"
    using sb scf1 rr1 cyc by (simp add: pf_ppm_finish_buffer_def p1'_def Let_def)
  have cpp: "cycle pp1 = c"
    using pp1 sb scf1 rr1 cyc by (auto simp: pf_ppm_finish_buffer_def p1'_def Let_def)
  have "\<exists>q. pp1 = p1'\<lparr>cycle := cycle pp1, p_send_buffer := Some (b\<lparr>payload := q\<rparr>)\<rparr>
           \<and> length q = length (payload b)
           \<and> take (unat (buffer_pos p1')) q = take (unat (buffer_pos p1')) (payload b)
           \<and> q ! unat (cycle_counter_offset p1') = ucast (drop_bit 8 (cycle pp1))
           \<and> q ! (unat (cycle_counter_offset p1') + 1) = ucast (cycle pp1)
           \<and> q ! unat (data_status_offset p1') = data_status p1'
           \<and> q ! unat (transfer_status_offset p1') = transfer_status p1'"
    using inl bd
    by (intro finish_buffer_layout [OF pp1])
       (simp_all add: p1'_def sb bp cco dso tso lpb bd1 io_def)
  then obtain q where
    ppq: "p_send_buffer pp1 = Some (b\<lparr>payload := q\<rparr>)"
    and lq: "length q = 1522"
    and tq: "take 20 q = take 20 (payload b)"
    and q60: "q ! 60 = ucast (drop_bit 8 c)" and q61: "q ! 61 = ucast c"
    and q62: "q ! 62 = 0x25" and q63: "q ! 63 = 0"
    by (auto simp: p1'_def bp cco dso tso ds ts lpb cpp)
  define f where "f = take 64 q"
  have cr1: "crep < length (iocrs ar1)" using cr len1 by simp
  have fin1: "pf_ppm_finish_buffer now ((ppm (iocrs ar1 ! crep))\<lparr>ci_timer := UINT32_MAX\<rparr>)
                (in_length (iocrs ar1 ! crep)) = Inr pp1"
    using pp1 by (simp add: p1'_def p1_def inl1)
  note snd = send_running [OF cr1 run [unfolded p1_def] fin1 ppq,
      where rtos = rtos and eth_send_ret = eth_send_ret and sched_ret = sched_ret2 and net = net1]
  then obtain net2 ar2 where
    s: "pf_ppm_send rtos now eth_send_ret sched_ret2 net1 ar1 crep = Inr (net2, ar2)"
    by (auto split: sum.splits)
  from snd s have sf: "sent_frames (drop (length (os_calls net1)) (os_calls net2)) = [f]"
    and pre: "take (length (os_calls net1)) (os_calls net2) = os_calls net1"
    by (simp_all add: lb f_def)
  have "os_calls net2 = os_calls net1 @ drop (length (os_calls net1)) (os_calls net2)"
    using pre by (metis append_take_drop_id)
  then have "drop (length (os_calls net)) (os_calls net2)
             = drop (length (os_calls net)) (os_calls net1)
               @ drop (length (os_calls net1)) (os_calls net2)"
    using oc by (metis append.assoc append_eq_conv_conj)
  then have "sent_frames (drop (length (os_calls net)) (os_calls net2)) = [f]"
    using sf by (simp add: sent_frames_append oc sent_frames_simps)
  then have ff: "ppm_first_frame rtos fresh timer_ret sched_ret now eth_send_ret sched_ret2 net p_ar crep
                 = Inr [f]"
    by (simp add: ppm_first_frame_def a s)
  have lf: "length f = 64" by (simp add: f_def lq)
  have t20: "take 20 f = [0xAA, 0xBB, 0xCC, 0xDD, 0xEE, 0x01, 0x11, 0x22, 0x33, 0x44, 0x55, 0x66,
                           0x81, 0x00, 0xC0, 0x00, 0x88, 0x92, 0x80, 0x01]"
    by (simp add: f_def tq pb)
  have "drop 60 f = [q ! 60, q ! 61, q ! 62, q ! 63]"
    unfolding f_def by (rule drop60_take64) (simp add: lq)
  then have d60: "drop 60 f = be16 c @ [0x25, 0x00]"
    by (simp add: q60 q61 q62 q63 be16_def)
  from ff lf t20 d60 show ?thesis by blast
qed

lemma finish_buffer_cycle_at_0: "pf_ppm_finish_buffer_cycle 0 32 1 = Inr 32"
  by (simp add: pf_ppm_finish_buffer_cycle_def Let_def signed_divide_int_def signed_modulo_int_def)

lemma scenario_params_scenario: "scenario_params scenario_ar 0"
  by (simp add: scenario_params_def scenario_ar_def scenario_iocr_def scenario_ppm_def)

text \<open>
  Claim C2 as stated fails in one byte: the data status of the first frame is \<open>0x25\<close>
  (bits 0, 2 and 5, as activation sets them), not \<open>0x35\<close>; bit 4, the provider state,
  is set only by \<open>pf_ppm_set_data_status_provider\<close>.
\<close>

theorem first_frame_data_status_counterexample:
  "map_sum id (bytes_at 62)
     (ppm_first_frame False scenario_buf None (Some 0) 0 64 (Some 0) scenario_net scenario_ar 0)
   = Inr [0x25] \<and> (0x25 :: u8) \<noteq> 0x35"
proof -
  have "\<exists>f. ppm_first_frame False scenario_buf None (Some 0) 0 64 (Some 0) scenario_net scenario_ar 0
               = Inr [f]
           \<and> length f = 64
           \<and> take 20 f = [0xAA, 0xBB, 0xCC, 0xDD, 0xEE, 0x01, 0x11, 0x22, 0x33, 0x44, 0x55, 0x66,
                           0x81, 0x00, 0xC0, 0x00, 0x88, 0x92, 0x80, 0x01]
           \<and> drop 60 f = be16 32 @ [0x25, 0x00]"
    by (rule first_frame_lemma [OF scenario_params_scenario _ _ _ _ _ finish_buffer_cycle_at_0])
       (simp_all add: scenario_buf_def PF_FRAME_BUFFER_SIZE_def scenario_ar_def scenario_iocr_def
          scenario_ppm_def scenario_net_def)
  then obtain f where f: "ppm_first_frame False scenario_buf None (Some 0) 0 64 (Some 0)
                            scenario_net scenario_ar 0 = Inr [f]"
    and l: "length f = 64" and d: "drop 60 f = be16 32 @ [0x25, 0x00]" by blast
  have "f ! 62 = drop 60 f ! 2" using l by simp
  then have "f ! 62 = 0x25" by (simp add: d be16_def)
  then show ?thesis by (simp add: f bytes_at_def)
qed

text \<open>
  Claim C2, amended. For the activation with send clock factor 32, reduction ratio 1,
  40 bytes of payload, initiator \<open>AA:BB:CC:DD:EE:01\<close>, responder
  \<open>11:22:33:44:55:66\<close>, VLAN id 0, priority 6 and frame id \<open>0x8001\<close>, on either
  scheduler path, with any contents of the allocated buffer and of the staging buffer:
  activation followed by one timer tick at time 0 hands exactly one frame to the
  driver. It is 64 bytes long; bytes 0 to 5 are the initiator MAC, 6 to 11 the
  responder MAC, 12 to 13 \<open>0x8100\<close>, 14 to 15 \<open>0xC000\<close>, 16 to 17 \<open>0x8892\<close>, 18 to
  19 \<open>0x8001\<close>; the cycle counter 32 is at offset 60 in big-endian order, the data
  status \<open>0x25\<close> at offset 62 and the transfer status \<open>0x00\<close> at offset 63.
\<close>

theorem first_frame_amended:
  assumes "scenario_params p_ar crep"
    and "length (payload fresh) = PF_FRAME_BUFFER_SIZE"
    and "unat (in_length (iocrs p_ar ! crep)) \<le> length (buffer_data (ppm (iocrs p_ar ! crep)))"
    and "0 < scheduler_tick_interval net"
    and "unat (scheduler_tick_interval net) < 2 ^ 31"
    and "if rtos then timer_ret \<noteq> None else sched_ret \<noteq> None"
  shows "\<exists>f. ppm_first_frame rtos fresh timer_ret sched_ret 0 eth_send_ret sched_ret2 net p_ar crep
               = Inr [f]
           \<and> length f = 64
           \<and> take 20 f = [0xAA, 0xBB, 0xCC, 0xDD, 0xEE, 0x01, 0x11, 0x22, 0x33, 0x44, 0x55, 0x66,
                           0x81, 0x00, 0xC0, 0x00, 0x88, 0x92, 0x80, 0x01]
           \<and> drop 60 f = [0x00, 0x20, 0x25, 0x00]"
  using first_frame_lemma [OF assms finish_buffer_cycle_at_0, of eth_send_ret sched_ret2]
  by (simp add: be16_def)

text \<open>Witness for C2: the scenario on the cooperative path with a zeroed buffer.\<close>

theorem first_frame_amended_witness:
  "scenario_params scenario_ar 0
   \<and> length (payload scenario_buf) = PF_FRAME_BUFFER_SIZE
   \<and> unat (in_length (iocrs scenario_ar ! 0)) \<le> length (buffer_data (ppm (iocrs scenario_ar ! 0)))
   \<and> 0 < scheduler_tick_interval scenario_net
   \<and> unat (scheduler_tick_interval scenario_net) < 2 ^ 31
   \<and> (\<exists>f. ppm_first_frame False scenario_buf None (Some 0) 0 64 (Some 0) scenario_net scenario_ar 0
               = Inr [f]
           \<and> length f = 64
           \<and> take 20 f = [0xAA, 0xBB, 0xCC, 0xDD, 0xEE, 0x01, 0x11, 0x22, 0x33, 0x44, 0x55, 0x66,
                           0x81, 0x00, 0xC0, 0x00, 0x88, 0x92, 0x80, 0x01]
           \<and> drop 60 f = [0x00, 0x20, 0x25, 0x00])"
proof -
  have h1: "scenario_params scenario_ar 0" by (rule scenario_params_scenario)
  have h2: "length (payload scenario_buf) = PF_FRAME_BUFFER_SIZE"
    by (simp add: scenario_buf_def PF_FRAME_BUFFER_SIZE_def)
  have h3: "unat (in_length (iocrs scenario_ar ! 0))
            \<le> length (buffer_data (ppm (iocrs scenario_ar ! 0)))"
    by (simp add: scenario_ar_def scenario_iocr_def scenario_ppm_def)
  have h4: "0 < scheduler_tick_interval scenario_net" by (simp add: scenario_net_def)
  have h5: "unat (scheduler_tick_interval scenario_net) < 2 ^ 31" by (simp add: scenario_net_def)
  have h6: "if False then (None :: os_timer option) \<noteq> None else Some (0 :: u32) \<noteq> None" by simp
  show ?thesis
    using h1 h2 h3 h4 h5 first_frame_amended [OF h1 h2 h3 h4 h5 h6, of 64 "Some 0"]
    by blast
qed

lemma activate_rejected:
  assumes "state (ppm (iocrs p_ar ! crep)) = PF_PPM_STATE_RUN"
  shows "case pf_ppm_activate_req rtos alloc_ret timer_ret sched_ret net p_ar crep of
      Inl e \<Rightarrow> False
    | Inr (r, net', ar') \<Rightarrow> r = - 1
        \<and> ppm_instance_cnt net' = ppm_instance_cnt net + 1
        \<and> ppm_buf_lock net' = (if ppm_instance_cnt net = 0 then Some Mutex else ppm_buf_lock net)
        \<and> iocrs ar' = iocrs p_ar"
  using assms unfolding pf_ppm_activate_req_def Let_def by (simp add: log_call_def)

lemma close_effect:
  assumes "crep < length (iocrs p_ar)"
  shows "case pf_ppm_close_req rtos net p_ar crep of (r, net', ar') \<Rightarrow> r = 0
        \<and> ppm_instance_cnt net' = ppm_instance_cnt net - 1
        \<and> ppm_buf_lock net' = (if ppm_instance_cnt net = 1 then None else ppm_buf_lock net)
        \<and> map (\<lambda>io. state (ppm io)) (iocrs ar')
            = (map (\<lambda>io. state (ppm io)) (iocrs p_ar))[crep := PF_PPM_STATE_W_START]"
  using assms unfolding pf_ppm_close_req_def Let_def pf_ppm_set_state_def set_ppm_def log_call_def
  by (auto split: option.splits prod.splits if_splits simp: map_update)

text \<open>
  Claim C4 fails on the code. After initialisation, a successful activation, a second
  activation of the same instance (rejected, since it is in RUN) and one close, the
  instance is back in \<open>W_START\<close>, so no PPM instance is active; but the rejected
  activation has incremented the counter as well, so the counter is 1 and the lock
  still exists.
\<close>

theorem instance_cnt_leak_after_rejected_activate:
  "ppm_observe (ppm_calls False
      [PPM_INIT,
       PPM_ACTIVATE 0 (Some scenario_buf) None (Some 0),
       PPM_ACTIVATE 0 (Some scenario_buf) None (Some 0),
       PPM_CLOSE 0] scenario_net scenario_ar)
   = Inr (1, Some Mutex, [PF_PPM_STATE_W_START])"
proof -
  define net0 where "net0 = pf_ppm_init scenario_net"
  have n0: "ppm_instance_cnt net0 = 0" "scheduler_tick_interval net0 = 1000"
    by (simp_all add: net0_def pf_ppm_init_def scenario_net_def)
  have cr: "(0 :: nat) < length (iocrs scenario_ar)" by (simp add: scenario_ar_def)
  have st: "state (ppm (iocrs scenario_ar ! 0)) \<noteq> PF_PPM_STATE_RUN"
    by (simp add: scenario_ar_def scenario_iocr_def scenario_ppm_def)
  have sdu: "unat (c_sdu_length (param (iocrs scenario_ar ! 0))) \<le> 1498"
    by (simp add: scenario_ar_def scenario_iocr_def)
  have d: "pf_ppm_calculate_compensated_delay False
              ((ucast (send_clock_factor (param (iocrs scenario_ar ! 0)))
                * ucast (reduction_ratio (param (iocrs scenario_ar ! 0))) * 1000) div 32)
              (scheduler_tick_interval net0) = Inr 500"
    by (simp add: n0 scenario_ar_def scenario_iocr_def pf_ppm_calculate_compensated_delay_def)
  have tm: "if False then (None :: os_timer option) \<noteq> None else Some (0 :: u32) \<noteq> None" by simp
  note a1 = activate_success [OF cr st sdu d tm, of scenario_buf]
  then obtain r1 net1 ar1 where
    e1: "pf_ppm_activate_req False (Some scenario_buf) None (Some 0) net0 scenario_ar 0
         = Inr (r1, net1, ar1)"
    by (auto split: sum.splits)
  from a1 e1 have c1: "ppm_instance_cnt net1 = 1" and l1: "ppm_buf_lock net1 = Some Mutex"
    and len1: "length (iocrs ar1) = 1" and s1: "state (ppm (iocrs ar1 ! 0)) = PF_PPM_STATE_RUN"
    by (simp_all add: n0 Let_def scenario_ar_def)
  note a2 = activate_rejected [OF s1, where rtos = False and alloc_ret = "Some scenario_buf"
      and timer_ret = None and sched_ret = "Some 0" and net = net1]
  then obtain r2 net2 ar2 where
    e2: "pf_ppm_activate_req False (Some scenario_buf) None (Some 0) net1 ar1 0
         = Inr (r2, net2, ar2)"
    by (auto split: sum.splits)
  from a2 e2 have c2: "ppm_instance_cnt net2 = 2" and l2: "ppm_buf_lock net2 = Some Mutex"
    and i2: "iocrs ar2 = iocrs ar1"
    by (simp_all add: c1 l1)
  have cr2: "(0 :: nat) < length (iocrs ar2)" by (simp add: i2 len1)
  note a3 = close_effect [OF cr2, where rtos = False and net = net2]
  obtain r3 net3 ar3 where e3: "pf_ppm_close_req False net2 ar2 0 = (r3, net3, ar3)"
    by (cases "pf_ppm_close_req False net2 ar2 0") auto
  from a3 e3 have c3: "ppm_instance_cnt net3 = 1" and l3: "ppm_buf_lock net3 = Some Mutex"
    and s3: "map (\<lambda>io. state (ppm io)) (iocrs ar3)
            = (map (\<lambda>io. state (ppm io)) (iocrs ar2))[0 := PF_PPM_STATE_W_START]"
    by (simp_all add: c2 l2)
  have "length (map (\<lambda>io. state (ppm io)) (iocrs ar2)) = 1" by (simp add: i2 len1)
  then have "(map (\<lambda>io. state (ppm io)) (iocrs ar2))[0 := PF_PPM_STATE_W_START]
             = [PF_PPM_STATE_W_START]"
    by (cases "map (\<lambda>io. state (ppm io)) (iocrs ar2)") simp_all
  with s3 have s3': "map (\<lambda>io. state (ppm io)) (iocrs ar3) = [PF_PPM_STATE_W_START]" by simp
  show ?thesis
    by (simp add: ppm_observe_def net0_def [symmetric] e1 e2 e3 c3 l3 s3')
qed


section \<open>LLDP: remote mismatch alarm\<close>

lemma remote_mismatch_ar_spec:
  "remote_mismatch_ar upd perm temp ix = spec_remote_mismatch_calls upd (perm \<noteq> temp) ix"
  by (simp add: remote_mismatch_ar_def spec_remote_mismatch_calls_def spec_remote_mismatch_item_def
      Let_def)

lemma remote_mismatch_loop_spec:
  "remote_mismatch_loop upd perm temp ix0 ars sent
   = (spec_remote_mismatch_all upd (perm \<noteq> temp) ix0 ars, sent \<or> list_ex in_use ars)"
proof (induction ars arbitrary: ix0 sent)
  case Nil
  then show ?case by (simp add: spec_remote_mismatch_all_def)
next
  case (Cons a as)
  have z: "zip [ix0..<Suc (ix0 + length as)] (a # as)
           = (ix0, a) # zip [Suc ix0..<Suc (ix0 + length as)] as"
    by (simp add: upt_conv_Cons del: upt_Suc)
  show ?case
    by (simp add: Cons.IH spec_remote_mismatch_all_def z remote_mismatch_ar_spec
        del: upt_Suc)
qed

text \<open>
  Claim C8, amended: the alarm path returns whenever an AR is in use or the temporary
  alias fits the permanent one. For every in-use AR, in index order, the item is built
  with \<open>APPEARS\<close> and the three diagnosis bits true when the temporary alias differs
  from the permanent alias, with \<open>DISAPPEARS\<close> and the bits false otherwise;
  \<open>pf_diag_update\<close> is attempted first; \<open>pf_diag_add\<close> follows a failed update
  only when the aliases differ; the port change notification is sent last. Without an AR
  in use the temporary alias becomes the permanent one.
\<close>

theorem remote_mismatch_alarm_amended:
  "(list_ex in_use (cmrpc_ar net) \<or> length (temp_alias_name net) < sizeof_alias_name sz
      \<longrightarrow> (\<exists>net'. pf_lldp_send_remote_mismatch_alarm sz upd net = Inr net'))
   \<and> (\<forall>net'. pf_lldp_send_remote_mismatch_alarm sz upd net = Inr net' \<longrightarrow>
         lldp_calls net'
           = lldp_calls net
             @ spec_remote_mismatch_all upd (perm_alias_name net \<noteq> temp_alias_name net) 0
                 (cmrpc_ar net)
       \<and> perm_alias_name net'
           = (if list_ex in_use (cmrpc_ar net) then perm_alias_name net else temp_alias_name net))"
  by (auto simp: pf_lldp_send_remote_mismatch_alarm_def remote_mismatch_loop_spec Let_def
      split: if_splits)

text \<open>
  Claim C8 as stated fails: with equal aliases (the \<open>DISAPPEARS\<close> branch) and a
  failing \<open>pf_diag_update\<close>, the calls for the AR are the update and the
  notification; \<open>pf_diag_add\<close> is not invoked.
\<close>

theorem remote_mismatch_no_add_counterexample:
  "lldp_calls_of (pf_lldp_send_remote_mismatch_alarm scenario_sizes diag_update_fails scenario_lldp_net)
   = Inr [PF_DIAG_UPDATE 0 (spec_remote_mismatch_item False),
          PF_ALARM_SEND_PORT_CHANGE_NOTIFICATION 0 (spec_remote_mismatch_item False)]
   \<and> diag_update_fails 0 \<noteq> 0"
  by (simp add: pf_lldp_send_remote_mismatch_alarm_def remote_mismatch_loop_spec Let_def
      lldp_calls_of_def scenario_lldp_net_def spec_remote_mismatch_all_def scenario_ar_def
      spec_remote_mismatch_calls_def diag_update_fails_def)

text \<open>
  Witness for C8: one AR in use, the temporary alias \<open>a\<close> against an empty permanent
  alias, and a failing update: update, add and notification, all with \<open>APPEARS\<close>.
\<close>

theorem remote_mismatch_alarm_amended_witness:
  "lldp_calls_of (pf_lldp_send_remote_mismatch_alarm scenario_sizes diag_update_fails
       (scenario_lldp_net\<lparr>temp_alias_name := [0x61]\<rparr>))
     = Inr [PF_DIAG_UPDATE 0 (spec_remote_mismatch_item True),
            PF_DIAG_ADD 0 (spec_remote_mismatch_item True),
            PF_ALARM_SEND_PORT_CHANGE_NOTIFICATION 0 (spec_remote_mismatch_item True)]"
proof -
  define net where "net = scenario_lldp_net\<lparr>temp_alias_name := [0x61]\<rparr>"
  have u: "in_use scenario_ar" by (simp add: scenario_ar_def)
  have h: "list_ex in_use (cmrpc_ar net)"
    by (simp add: net_def scenario_lldp_net_def u)
  note t = remote_mismatch_alarm_amended [of net scenario_sizes diag_update_fails]
  from t h obtain net' where
    r: "pf_lldp_send_remote_mismatch_alarm scenario_sizes diag_update_fails net = Inr net'"
    by blast
  with t have "lldp_calls net' = lldp_calls net
      @ spec_remote_mismatch_all diag_update_fails (perm_alias_name net \<noteq> temp_alias_name net) 0
          (cmrpc_ar net)"
    by blast
  then have "lldp_calls net' =
      [PF_DIAG_UPDATE 0 (spec_remote_mismatch_item True),
       PF_DIAG_ADD 0 (spec_remote_mismatch_item True),
       PF_ALARM_SEND_PORT_CHANGE_NOTIFICATION 0 (spec_remote_mismatch_item True)]"
    by (simp add: net_def scenario_lldp_net_def spec_remote_mismatch_all_def
        spec_remote_mismatch_calls_def diag_update_fails_def u)
  with r show ?thesis by (simp add: lldp_calls_of_def net_def)
qed


section \<open>LLDP: TTL through encoder and decoder\<close>

lemma ucast_ucast_low_byte: "(ucast (ucast (t :: u16) :: u8) :: u16) = t AND 0xFF"
proof -
  have m: "(0xFF :: u16) = mask 8" by (simp add: mask_eq_exp_minus_1)
  have "(ucast (ucast t :: u8) :: u16) = t AND mask 8"
    by (rule bit_word_eqI) (auto simp: bit_simps)
  then show ?thesis by (simp only: m)
qed

lemma u8_1538: "(1538 :: u8) = 2"
  by simp

lemma encode_ttl_and_end:
  assumes "length buf = PF_FRAME_BUFFER_SIZE" "pos + 6 \<le> PF_FRAME_BUFFER_SIZE"
  shows "pf_lldp_tlv_header (lldp_add_ttl_tlv \<lparr>lldp_cfg = \<lparr>ttl = t\<rparr>\<rparr> (buf, pos)) LLDP_TYPE_END 0
         = (buf[pos := 6, pos + 1 := 2, pos + 2 := ucast (drop_bit 8 t), pos + 3 := ucast t,
                pos + 4 := 0, pos + 5 := 0], pos + 6)"
proof -
  have e: "pos + 2 = Suc (Suc pos)" "pos + 3 = Suc (Suc (Suc pos))"
    "pos + 4 = Suc (Suc (Suc (Suc pos)))" "pos + 5 = Suc (Suc (Suc (Suc (Suc pos))))"
    "pos + 6 = Suc (Suc (Suc (Suc (Suc (Suc pos)))))"
    by simp_all
  show ?thesis
    using assms unfolding e
    by (simp add: pf_lldp_tlv_header_def lldp_add_ttl_tlv_def pf_put_uint16_def pf_put_byte_def
      LLDP_TYPE_TTL_def LLDP_TYPE_END_def u8_1538)
qed

lemma lldp_get_header_bytes:
  assumes "pos + 2 \<le> length p" "p ! pos = a" "p ! (pos + 1) = b"
  shows "lldp_get_header p pos
         = Inr (ucast (drop_bit 9 ((push_bit 8 (ucast a) OR ucast b :: u16) AND 0xFE00)),
                unat ((push_bit 8 (ucast a) OR ucast b :: u16) AND 0x1FF))"
  using assms
  by (simp add: lldp_get_header_def LLDP_TYPE_MASK_def LLDP_TYPE_SHIFT_def LLDP_LENGTH_MASK_def)

lemma recv_ttl_stores_byte:
  assumes "pf_lldp_recv_ttl tc net p pData = Inr net'"
  shows "TTL (peer_cfg net') = ucast (p ! (pData + 1))"
  using assms
  by (auto simp: pf_lldp_recv_ttl_def Let_def split: if_splits option.splits)

lemma recv_ttl_returns:
  "pData + 1 < length p \<Longrightarrow> \<exists>net'. pf_lldp_recv_ttl tc net p pData = Inr net'"
  by (auto simp: pf_lldp_recv_ttl_def Let_def split: option.splits)

lemma ttl_round_trip_low_byte:
  assumes l: "length buf = PF_FRAME_BUFFER_SIZE" and b: "pos + 6 \<le> PF_FRAME_BUFFER_SIZE"
  shows "peer_TTL_of (ttl_round_trip sz upd tc net buf pos t) = Inr (t AND 0xFF)"
proof -
  define P where "P = buf[pos := 6, pos + 1 := 2, pos + 2 := ucast (drop_bit 8 t),
                          pos + 3 := ucast t, pos + 4 := 0, pos + 5 := 0]"
  have lP: "length P = length buf" by (simp add: P_def)
  have pl: "pos + 6 \<le> length buf" using l b by simp
  have n0: "P ! pos = 6" and n1: "P ! (pos + 1) = 2" and n3: "P ! (pos + 3) = ucast t"
    and n4: "P ! (pos + 4) = 0" and n5: "P ! (pos + 5) = 0"
    using pl by (simp_all add: P_def)
  have h1: "lldp_get_header P pos = Inr (LLDP_TYPE_TTL, 2)"
    using pl by (subst lldp_get_header_bytes [OF _ n0 n1]) (simp_all add: lP LLDP_TYPE_TTL_def)
  have e: "pos + 2 + 2 = pos + 4" "pos + 2 + 2 + 1 = pos + 5" "pos + 2 + 1 = pos + 3"
    by simp_all
  have n4': "P ! (pos + 2 + 2) = 0" unfolding e(1) by (rule n4)
  have n5': "P ! (pos + 2 + 2 + 1) = 0" unfolding e(2) by (rule n5)
  have n3': "P ! (pos + 2 + 1) = ucast t" unfolding e(3) by (rule n3)
  have h2: "lldp_get_header P (pos + 2 + 2) = Inr (LLDP_TYPE_END, 0)"
    using pl by (subst lldp_get_header_bytes [OF _ n4' n5']) (simp_all add: lP LLDP_TYPE_END_def)
  from recv_ttl_returns [of "pos + 2" P tc net] pl lP
  obtain net1 where r: "pf_lldp_recv_ttl tc net P (pos + 2) = Inr net1" by auto
  have t1: "TTL (peer_cfg net1) = ucast (ucast t :: u8)"
    using recv_ttl_stores_byte [OF r] by (simp only: n3')
  have tlv: "pf_lldp_recv_tlv sz upd tc net [] P (pos + 2) LLDP_TYPE_TTL 2 = Inr (net1, [])"
    using r by (simp add: pf_lldp_recv_tlv_def LLDP_TYPE_TTL_def LLDP_TYPE_CHASSIS_ID_def
        LLDP_TYPE_PORT_ID_def)
  have last: "pf_lldp_recv_loop sz upd tc net1 [] P (pos + 2 + 2 + 2) LLDP_TYPE_END 0 = Inr net1"
    by (subst pf_lldp_recv_loop.simps) simp
  have loop: "pf_lldp_recv_loop sz upd tc net [] P (pos + 2) LLDP_TYPE_TTL 2 = Inr net1"
    using tlv h2 last
    by (subst pf_lldp_recv_loop.simps) (simp add: LLDP_TYPE_TTL_def LLDP_TYPE_END_def)
  have "ttl_round_trip sz upd tc net buf pos t = Inr net1"
    unfolding ttl_round_trip_def encode_ttl_and_end [OF l b] P_def [symmetric]
    using h1 loop by (simp add: pf_lldp_recv_def)
  then show ?thesis by (simp add: peer_TTL_of_def t1 ucast_ucast_low_byte)
qed

text \<open>
  Claim C6 fails on the code: the TTL 256, written by \<open>lldp_add_ttl_tlv\<close> as the
  bytes 01 00 and decoded by \<open>pf_lldp_recv\<close>, is stored as 0. The decoder keeps the
  byte at \<open>pData[1]\<close> only, so every TTL comes back as its low byte
  (lemma \<open>ttl_round_trip_low_byte\<close>).
\<close>

theorem ttl_round_trip_loses_high_byte:
  "peer_TTL_of (ttl_round_trip scenario_sizes diag_update_fails None scenario_lldp_net
                  (replicate 1522 0) 0 256) = Inr 0
   \<and> (256 :: u16) \<noteq> 0"
proof -
  have "peer_TTL_of (ttl_round_trip scenario_sizes diag_update_fails None scenario_lldp_net
                  (replicate 1522 0) 0 256) = Inr (256 AND 0xFF)"
    by (rule ttl_round_trip_low_byte) (simp_all add: PF_FRAME_BUFFER_SIZE_def)
  then show ?thesis by simp
qed


section \<open>LLDP: alias of the peer\<close>

lemma length_cstr_le: "length (cstr xs) \<le> length xs"
  by (simp add: cstr_def length_takeWhile_le)

lemma alarm_keeps_peer_and_temp:
  assumes "pf_lldp_send_remote_mismatch_alarm sz upd net = Inr net'"
  shows "peer_cfg net' = peer_cfg net \<and> temp_alias_name net' = temp_alias_name net"
  using assms
  by (auto simp: pf_lldp_send_remote_mismatch_alarm_def Let_def split: prod.splits if_splits)

lemma alarm_returns:
  assumes "length (temp_alias_name net) < sizeof_alias_name sz"
  shows "\<exists>net'. pf_lldp_send_remote_mismatch_alarm sz upd net = Inr net'"
  using assms
  by (auto simp: pf_lldp_send_remote_mismatch_alarm_def Let_def split: prod.splits)

lemma recv_chassis_id_effect:
  assumes "pf_lldp_recv_chassis_id sz net p pData ln = Inr net'"
  shows "PeerChassisID (peer_cfg net') = take (ln - 1) (drop (pData + 1) p)
       \<and> PeerChassisIDLen (peer_cfg net') = ln - 1
       \<and> length (cstr (PeerChassisID (peer_cfg net'))) \<le> PeerChassisIDLen (peer_cfg net')"
proof -
  from assms have a: "PeerChassisID (peer_cfg net') = take (ln - 1) (drop (pData + 1) p)"
    and b: "PeerChassisIDLen (peer_cfg net') = ln - 1"
    by (auto simp: pf_lldp_recv_chassis_id_def split: if_splits)
  have "length (cstr (take (ln - 1) (drop (pData + 1) p))) \<le> ln - 1"
    using length_cstr_le [of "take (ln - 1) (drop (pData + 1) p)"] by simp
  with a b show ?thesis by simp
qed

lemma recv_tlv_other_keeps_alias:
  assumes "pf_lldp_recv_tlv sz upd tc net alias p pData typ ln = Inr (net', alias')"
    and "typ \<noteq> LLDP_TYPE_PORT_ID"
  shows "alias' = alias"
  using assms by (auto simp: pf_lldp_recv_tlv_def split: if_splits sum.splits)

lemma recv_tlv_other_keeps_chassis:
  assumes "pf_lldp_recv_tlv sz upd tc net alias p pData typ ln = Inr (net', alias')"
    and "typ \<noteq> LLDP_TYPE_PORT_ID" and "typ \<noteq> LLDP_TYPE_CHASSIS_ID"
  shows "PeerChassisID (peer_cfg net') = PeerChassisID (peer_cfg net)
       \<and> PeerChassisIDLen (peer_cfg net') = PeerChassisIDLen (peer_cfg net)"
  using assms
  by (auto simp: pf_lldp_recv_tlv_def pf_lldp_recv_ttl_def Let_def
      split: if_splits sum.splits option.splits)

lemma recv_port_id_result:
  assumes r: "pf_lldp_recv_port_id sz upd net [] p pData ln = Inr (net', alias')"
    and ch: "length (cstr (PeerChassisID (peer_cfg net))) \<le> PeerChassisIDLen (peer_cfg net)"
  shows "PeerPortID (peer_cfg net') = take (ln - 1) (drop (pData + 1) p)
       \<and> PeerChassisID (peer_cfg net') = PeerChassisID (peer_cfg net)
       \<and> alias' = (if DOT \<in> set (cstr (PeerPortID (peer_cfg net')))
                   then cstr (PeerPortID (peer_cfg net'))
                   else cstr (PeerPortID (peer_cfg net')) @ [DOT]
                        @ cstr (PeerChassisID (peer_cfg net)))
       \<and> temp_alias_name net' = alias'"
proof -
  define n where "n = ln - 1"
  define raw where "raw = take n (drop (pData + 1) p)"
  define port where "port = cstr raw"
  define chassis where "chassis = cstr (PeerChassisID (peer_cfg net))"
  define clen where "clen = PeerChassisIDLen (peer_cfg net)"
  define net1 where "net1 = net\<lparr>peer_cfg := (peer_cfg net)\<lparr>PeerPortIDLen := n, PeerPortID := raw\<rparr>\<rparr>"
  have lp: "length port \<le> n"
    using length_cstr_le [of raw] by (simp add: port_def raw_def)
  have lc: "length chassis \<le> clen" using ch by (simp add: chassis_def clen_def)
  have L: "\<And>t. port @ DOT # chassis = t \<Longrightarrow> length t \<le> Suc (n + clen)"
    using lp lc by auto
  define exp where "exp = (if DOT \<in> set port then port else port @ [DOT] @ chassis)"
  from r lp lc have "(exp \<noteq> temp_alias_name net1 \<and>
                 (\<exists>net2. pf_lldp_send_remote_mismatch_alarm sz upd (net1\<lparr>temp_alias_name := exp\<rparr>)
                           = Inr net2 \<and> net' = net2 \<and> alias' = exp))
             \<or> (exp = temp_alias_name net1 \<and> net' = net1 \<and> alias' = exp)"
    unfolding pf_lldp_recv_port_id_def Let_def n_def [symmetric] raw_def [symmetric]
    by (auto simp: port_def [symmetric] chassis_def [symmetric] clen_def [symmetric]
        net1_def [symmetric] exp_def intro: L split: if_splits sum.splits)
  then have "peer_cfg net' = peer_cfg net1 \<and> temp_alias_name net' = exp \<and> alias' = exp"
    using alarm_keeps_peer_and_temp [of sz upd "net1\<lparr>temp_alias_name := exp\<rparr>"] by auto
  then show ?thesis
    by (simp add: net1_def exp_def port_def chassis_def raw_def n_def)
qed

lemma alarm_not_abort:
  assumes "length (temp_alias_name net) < sizeof_alias_name sz"
  shows "pf_lldp_send_remote_mismatch_alarm sz upd net \<noteq> Inl e"
  using alarm_returns [OF assms, of upd] by auto

lemma recv_port_id_returns:
  assumes ln: "0 < ln" and rd: "pData + ln \<le> length p"
    and b1: "ln - 1 < sizeof_frame_value sz" and b2: "ln - 1 < sizeof_PeerPortID sz"
    and b3: "(ln - 1) + PeerChassisIDLen (peer_cfg net) + 1 < sizeof_Alias"
    and b4: "(ln - 1) + PeerChassisIDLen (peer_cfg net) + 1 < sizeof_alias_name sz"
  shows "\<exists>r. pf_lldp_recv_port_id sz upd net [] p pData ln = Inr r"
proof -
  define n where "n = ln - 1"
  define raw where "raw = take n (drop (pData + 1) p)"
  define port where "port = cstr raw"
  define chassis where "chassis = cstr (PeerChassisID (peer_cfg net))"
  define clen where "clen = PeerChassisIDLen (peer_cfg net)"
  define net1 where "net1 = net\<lparr>peer_cfg := (peer_cfg net)\<lparr>PeerPortIDLen := n, PeerPortID := raw\<rparr>\<rparr>"
  have lp: "length port \<le> n"
    using length_cstr_le [of raw] by (simp add: port_def raw_def)
  have B3: "n + clen + 1 < sizeof_Alias" and B4: "n + clen + 1 < sizeof_alias_name sz"
    using b3 b4 by (simp_all add: n_def clen_def)
  have rd': "pData + 1 + n \<le> length p" using ln rd by (simp add: n_def)
  have B1: "n < sizeof_frame_value sz" and B2: "n < sizeof_PeerPortID sz"
    using b1 b2 by (simp_all add: n_def)
  have nA: "n < sizeof_Alias" using B3 by simp
  show ?thesis
  proof (cases "DOT \<in> set port")
    case True
    have "length port < sizeof_alias_name sz" using lp B4 by simp
    then show ?thesis
      unfolding pf_lldp_recv_port_id_def Let_def n_def [symmetric] raw_def [symmetric]
      using ln rd' B1 B2 True nA lp
      by (simp add: port_def [symmetric] net1_def [symmetric] alarm_not_abort
          split: sum.splits)
  next
    case False
    have l3: "Suc (length port + min (length chassis) clen) < sizeof_Alias"
      using lp B3 by simp
    have l4: "Suc (length port + min (length chassis) clen) < sizeof_alias_name sz"
      using lp B4 by simp
    have l5: "Suc (min (length chassis) clen) \<le> Suc (n + clen) - length port"
      using lp by simp
    show ?thesis
      unfolding pf_lldp_recv_port_id_def Let_def n_def [symmetric] raw_def [symmetric]
      using ln rd' B1 B2 False B3 lp l3 l4 l5
      by (simp add: port_def [symmetric] net1_def [symmetric]
          chassis_def [symmetric] clen_def [symmetric] alarm_not_abort
          split: sum.splits)
  qed
qed

text \<open>A byte string without a zero byte is its own C string.\<close>

lemma cstr_without_zero: "0 \<notin> set xs \<Longrightarrow> cstr xs = xs"
  by (simp add: cstr_def takeWhile_eq_all_conv) metis

text \<open>
  Where the code follows the rule: the Chassis ID TLV has been decoded and the first Port
  ID TLV of the frame is decoded next, neither identifier contains a zero byte, and the
  identifiers fit the arrays. Then the decoding returns, and the alias it computes, which
  is also the temporary alias name afterwards, is the port id when the port id contains
  a dot and otherwise port id, dot, chassis id.
\<close>

lemma port_id_alias_in_range:
  assumes c: "pf_lldp_recv_tlv sz upd tc net0 [] p pc LLDP_TYPE_CHASSIS_ID lc = Inr (net1, a1)"
    and zc: "0 \<notin> set (take (lc - 1) (drop (pc + 1) p))"
    and zp: "0 \<notin> set (take (lp - 1) (drop (pp + 1) p))"
  shows "(0 < lp \<and> pp + lp \<le> length p \<and> lp - 1 < sizeof_frame_value sz
            \<and> lp - 1 < sizeof_PeerPortID sz
            \<and> (lp - 1) + (lc - 1) + 1 < sizeof_Alias
            \<and> (lp - 1) + (lc - 1) + 1 < sizeof_alias_name sz
           \<longrightarrow> (\<exists>r. pf_lldp_recv_tlv sz upd tc net1 a1 p pp LLDP_TYPE_PORT_ID lp = Inr r))
       \<and> (\<forall>net2 alias2.
            pf_lldp_recv_tlv sz upd tc net1 a1 p pp LLDP_TYPE_PORT_ID lp = Inr (net2, alias2) \<longrightarrow>
              PeerChassisID (peer_cfg net2) = take (lc - 1) (drop (pc + 1) p)
            \<and> PeerPortID (peer_cfg net2) = take (lp - 1) (drop (pp + 1) p)
            \<and> alias2 = spec_alias (PeerPortID (peer_cfg net2)) (PeerChassisID (peer_cfg net2))
            \<and> temp_alias_name net2 = alias2)"
proof -
  have ne: "LLDP_TYPE_PORT_ID \<noteq> LLDP_TYPE_CHASSIS_ID"
    by (simp add: LLDP_TYPE_PORT_ID_def LLDP_TYPE_CHASSIS_ID_def)
  from c obtain a: "a1 = []"
    and c': "pf_lldp_recv_chassis_id sz net0 p pc lc = Inr net1"
    by (auto simp: pf_lldp_recv_tlv_def split: sum.splits)
  note e = recv_chassis_id_effect [OF c']
  from e have e1: "PeerChassisID (peer_cfg net1) = take (lc - 1) (drop (pc + 1) p)"
    and e2: "PeerChassisIDLen (peer_cfg net1) = lc - 1"
    and e3: "length (cstr (PeerChassisID (peer_cfg net1))) \<le> PeerChassisIDLen (peer_cfg net1)"
    by blast+
  have p: "pf_lldp_recv_tlv sz upd tc net1 a1 p pp LLDP_TYPE_PORT_ID lp
         = pf_lldp_recv_port_id sz upd net1 [] p pp lp"
    using ne by (simp add: pf_lldp_recv_tlv_def a)
  have "\<exists>r. pf_lldp_recv_port_id sz upd net1 [] p pp lp = Inr r"
    if "0 < lp" "pp + lp \<le> length p" "lp - 1 < sizeof_frame_value sz"
       "lp - 1 < sizeof_PeerPortID sz" "(lp - 1) + (lc - 1) + 1 < sizeof_Alias"
       "(lp - 1) + (lc - 1) + 1 < sizeof_alias_name sz"
    using that e2 by (intro recv_port_id_returns) simp_all
  moreover have "PeerChassisID (peer_cfg net2) = take (lc - 1) (drop (pc + 1) p)
            \<and> PeerPortID (peer_cfg net2) = take (lp - 1) (drop (pp + 1) p)
            \<and> alias2 = spec_alias (PeerPortID (peer_cfg net2)) (PeerChassisID (peer_cfg net2))
            \<and> temp_alias_name net2 = alias2"
    if r: "pf_lldp_recv_port_id sz upd net1 [] p pp lp = Inr (net2, alias2)" for net2 alias2
  proof -
    note q = recv_port_id_result [OF r e3]
    from q have q1: "PeerPortID (peer_cfg net2) = take (lp - 1) (drop (pp + 1) p)"
      and q2: "PeerChassisID (peer_cfg net2) = PeerChassisID (peer_cfg net1)"
      and q3: "alias2 = (if DOT \<in> set (cstr (PeerPortID (peer_cfg net2)))
                   then cstr (PeerPortID (peer_cfg net2))
                   else cstr (PeerPortID (peer_cfg net2)) @ [DOT]
                        @ cstr (PeerChassisID (peer_cfg net1)))"
      and q4: "temp_alias_name net2 = alias2"
      by blast+
    have s1: "cstr (PeerPortID (peer_cfg net2)) = PeerPortID (peer_cfg net2)"
      unfolding q1 by (rule cstr_without_zero [OF zp])
    have s2: "cstr (PeerChassisID (peer_cfg net1)) = PeerChassisID (peer_cfg net2)"
      unfolding q2 e1 by (rule cstr_without_zero [OF zc])
    have "alias2 = spec_alias (PeerPortID (peer_cfg net2)) (PeerChassisID (peer_cfg net2))"
      using q3 unfolding s1 s2 spec_alias_def .
    with q1 q2 e1 q4 show ?thesis by simp
  qed
  ultimately show ?thesis unfolding p by blast
qed

text \<open>
  The scenario frame (\<open>dut\<close>, \<open>port-003\<close>) through the whole of \<open>pf_lldp_recv\<close>:
  the temporary alias name is \<open>port-003.dut\<close>.
\<close>

lemma recv_scenario_frame:
  "temp_alias_name_of (pf_lldp_recv scenario_sizes diag_update_fails None scenario_lldp_net
       \<lparr>payload = scenario_lldp_frame, len = 19\<rparr> 0)
     = Inr [0x70, 0x6F, 0x72, 0x74, 0x2D, 0x30, 0x30, 0x33, 0x2E, 0x64, 0x75, 0x74]"
  by (simp add: temp_alias_name_of_def pf_lldp_recv_def lldp_get_header_def
      pf_lldp_recv_tlv_def pf_lldp_recv_chassis_id_def pf_lldp_recv_port_id_def
      pf_lldp_send_remote_mismatch_alarm_def remote_mismatch_ar_def
      scenario_lldp_frame_def scenario_lldp_net_def scenario_sizes_def scenario_ar_def
      diag_update_fails_def sizeof_Alias_def cstr_def DOT_def Let_def
      LLDP_TYPE_MASK_def LLDP_TYPE_SHIFT_def LLDP_LENGTH_MASK_def
      LLDP_TYPE_END_def LLDP_TYPE_CHASSIS_ID_def LLDP_TYPE_PORT_ID_def LLDP_TYPE_TTL_def)

text \<open>The definitions unfolded to run \<open>pf_lldp_recv\<close> on a frame.\<close>

lemmas lldp_eval =
  temp_alias_name_of_def pf_lldp_recv_def lldp_get_header_def
  pf_lldp_recv_tlv_def pf_lldp_recv_chassis_id_def pf_lldp_recv_port_id_def
  pf_lldp_send_remote_mismatch_alarm_def remote_mismatch_ar_def
  scenario_lldp_net_def scenario_sizes_def scenario_ar_def
  diag_update_fails_def sizeof_Alias_def cstr_def DOT_def Let_def
  LLDP_TYPE_MASK_def LLDP_TYPE_SHIFT_def LLDP_LENGTH_MASK_def
  LLDP_TYPE_END_def LLDP_TYPE_CHASSIS_ID_def LLDP_TYPE_PORT_ID_def LLDP_TYPE_TTL_def

text \<open>
  Claim C7 fails on the code: for the frame with the MAC address 00:0E:8C:11:22:33 as
  Chassis ID and the Port ID \<open>port-001\<close>, which has no dot, \<open>pf_lldp_recv\<close> computes
  the alias \<open>port-001.\<close> and not port id, dot, chassis id. The chassis id is appended
  with \<open>strncat\<close>, which stops at the zero byte that the address starts with.
\<close>

theorem alias_drops_mac_chassis_id:
  "temp_alias_name_of (pf_lldp_recv scenario_sizes diag_update_fails None scenario_lldp_net
       \<lparr>payload = scenario_mac_frame, len = 22\<rparr> 0)
     = Inr (scenario_mac_port_id @ [DOT])
   \<and> spec_alias scenario_mac_port_id scenario_mac_chassis_id
     = scenario_mac_port_id @ [DOT] @ scenario_mac_chassis_id
   \<and> scenario_mac_port_id @ [DOT]
     \<noteq> spec_alias scenario_mac_port_id scenario_mac_chassis_id"
  by (simp add: lldp_eval scenario_mac_frame_def scenario_mac_port_id_def
      scenario_mac_chassis_id_def spec_alias_def)

text \<open>
  The same reading as C strings on the port id: with the Port ID bytes 61 62 00 2E 63
  and the Chassis ID \<open>dut\<close> the alias is \<open>ab.dut\<close>, although the port id contains a
  dot.
\<close>

lemma alias_zero_byte_before_dot:
  "temp_alias_name_of (pf_lldp_recv scenario_sizes diag_update_fails None scenario_lldp_net
       \<lparr>payload = [0x02, 0x04, 0x07, 0x64, 0x75, 0x74,
                   0x04, 0x06, 0x07, 0x61, 0x62, 0x00, 0x2E, 0x63,
                   0x00, 0x00], len = 16\<rparr> 0)
     = Inr [0x61, 0x62, 0x2E, 0x64, 0x75, 0x74]
   \<and> spec_alias [0x61, 0x62, 0x00, 0x2E, 0x63] [0x64, 0x75, 0x74]
     = [0x61, 0x62, 0x00, 0x2E, 0x63]"
  by (simp add: lldp_eval spec_alias_def)

text \<open>
  \<open>_Alias\<close> is zeroed once per frame and the dotless branch appends to it: a second
  Port ID TLV \<open>p2\<close> after \<open>port-003\<close> leaves the alias \<open>port-0\<close>.
\<close>

lemma alias_second_port_id_tlv:
  "temp_alias_name_of (pf_lldp_recv scenario_sizes diag_update_fails None scenario_lldp_net
       \<lparr>payload = [0x02, 0x04, 0x07, 0x64, 0x75, 0x74,
                   0x04, 0x09, 0x07, 0x70, 0x6F, 0x72, 0x74, 0x2D, 0x30, 0x30, 0x33,
                   0x04, 0x03, 0x07, 0x70, 0x32,
                   0x00, 0x00], len = 24\<rparr> 0)
     = Inr [0x70, 0x6F, 0x72, 0x74, 0x2D, 0x30]
   \<and> spec_alias [0x70, 0x32] [0x64, 0x75, 0x74] = [0x70, 0x32, 0x2E, 0x64, 0x75, 0x74]"
  by (simp add: lldp_eval spec_alias_def)

text \<open>
  A Port ID of 250 bytes or more, which the 9-bit TLV length allows, is written beyond
  an array whatever the sizes of the peer record are: at the latest the terminator goes
  beyond the 250 bytes of \<open>_Alias\<close>.
\<close>

lemma long_port_id_overruns_alias:
  assumes "250 \<le> ln - 1" and "pData + ln \<le> length p"
  shows "pf_lldp_recv_port_id sz upd net alias p pData ln = Inl WRITE_OUT_OF_BOUNDS"
proof -
  define n where "n = ln - 1"
  define A where "A = sizeof_Alias"
  from assms have a: "ln \<noteq> 0" "pData + 1 + n \<le> length p" "\<not> n < A"
    "\<And>k. \<not> n + k + 1 < A"
    by (simp_all add: n_def A_def sizeof_Alias_def)
  show ?thesis
    unfolding pf_lldp_recv_port_id_def Let_def n_def [symmetric] A_def [symmetric]
    using a by simp
qed

end
